theory Spec2Isabelle
  imports Complex_Main "HOL-Library.Sublist" "HOL-Library.AList" "HOL-Library.Char_ord"
    "HOL-Library.List_Lexorder"
begin

section \<open>Python values the launcher works on\<close>

text \<open>
  Every failure of \<^verbatim>\<open>launcher.py\<close> is a Python exception derived from
  \<^verbatim>\<open>Exception\<close>; the model keeps the class and the message, and a function that can
  raise returns \<open>exn + 'a\<close> with \<open>Inl\<close> for the raise. Interrupts of the interpreter
  (\<^verbatim>\<open>KeyboardInterrupt\<close>, \<^verbatim>\<open>SystemExit\<close>) are not failures of an operation and
  are not modelled.
\<close>

datatype exn =
    Exception string
  | OSError string
  | HTTPError string
  | RequestException string
  | ValueError string
  | TypeError string
  | AttributeError string
  | JSONDecodeError string
  | BadZipFile string
  | KeyError string

fun exn_str :: "exn \<Rightarrow> string" where
  "exn_str (Exception m) = m"
| "exn_str (OSError m) = m"
| "exn_str (HTTPError m) = m"
| "exn_str (RequestException m) = m"
| "exn_str (ValueError m) = m"
| "exn_str (TypeError m) = m"
| "exn_str (AttributeError m) = m"
| "exn_str (JSONDecodeError m) = m"
| "exn_str (BadZipFile m) = m"
| "exn_str (KeyError m) = m"

text \<open>
  Strings are byte strings: \<^verbatim>\<open>str.lower\<close> is modelled on the ASCII letters, which
  is what it does on ASCII text.
\<close>

definition lower_char :: "char \<Rightarrow> char" where
  "lower_char c =
     (let n = (of_char c :: nat) in if 65 \<le> n \<and> n \<le> 90 then char_of (n + 32) else c)"

definition lower :: "string \<Rightarrow> string" where
  "lower s = map lower_char s"

definition replace_char :: "char \<Rightarrow> char \<Rightarrow> string \<Rightarrow> string" where
  "replace_char a b s = map (\<lambda>c. if c = a then b else c) s"

definition startswith :: "string \<Rightarrow> string \<Rightarrow> bool" where
  "startswith s p = prefix p s"

definition endswith :: "string \<Rightarrow> string \<Rightarrow> bool" where
  "endswith s p = suffix p s"

fun join_with :: "string \<Rightarrow> string list \<Rightarrow> string" where
  "join_with sep [] = []"
| "join_with sep [w] = w"
| "join_with sep (w # v # ws) = w @ sep @ join_with sep (v # ws)"

fun split_by :: "(char \<Rightarrow> bool) \<Rightarrow> string \<Rightarrow> string list" where
  "split_by P [] = [[]]"
| "split_by P (c # cs) =
     (if P c then [] # split_by P cs
      else (case split_by P cs of [] \<Rightarrow> [[c]] | w # ws \<Rightarrow> (c # w) # ws))"

section \<open>pathlib\<close>

text \<open>
  A \<^verbatim>\<open>Path\<close> object is its drive, whether it has a root, and its components. The
  flag \<open>nt\<close> is \<^verbatim>\<open>os.name == "nt"\<close>: on Windows both slashes separate components and a
  second character \<^verbatim>\<open>:\<close> ends a drive; elsewhere only \<^verbatim>\<open>/\<close> separates. Empty and
  \<^verbatim>\<open>.\<close> components are dropped by the constructor, \<^verbatim>\<open>..\<close> is kept. UNC share
  prefixes and the POSIX root \<^verbatim>\<open>//\<close> are outside the model.
\<close>

record ppath =
  drive :: string
  root :: bool
  parts :: "string list"

definition is_sep :: "bool \<Rightarrow> char \<Rightarrow> bool" where
  "is_sep nt c = (c = CHR ''/'' \<or> (nt \<and> c = CHR 0x5C))"

definition sep_str :: "bool \<Rightarrow> string" where
  "sep_str nt = (if nt then [CHR 0x5C] else ''/'')"

definition split_drive :: "bool \<Rightarrow> string \<Rightarrow> string \<times> string" where
  "split_drive nt s =
     (if nt \<and> 2 \<le> length s \<and> s ! 1 = CHR '':'' then (take 2 s, drop 2 s) else ([], s))"

definition Path :: "bool \<Rightarrow> string \<Rightarrow> ppath" where
  "Path nt s =
     (let (d, rest) = split_drive nt s
      in \<lparr> drive = d,
           root = (case rest of [] \<Rightarrow> False | c # _ \<Rightarrow> is_sep nt c),
           parts = filter (\<lambda>w. w \<noteq> [] \<and> w \<noteq> ''.'') (split_by (is_sep nt) rest) \<rparr>)"

definition path_str :: "bool \<Rightarrow> ppath \<Rightarrow> string" where
  "path_str nt p =
     (let s = drive p @ (if root p then sep_str nt else []) @ join_with (sep_str nt) (parts p)
      in if s = [] then ''.'' else s)"

definition is_absolute :: "bool \<Rightarrow> ppath \<Rightarrow> bool" where
  "is_absolute nt p = (root p \<and> (nt \<longrightarrow> drive p \<noteq> []))"

definition parent :: "ppath \<Rightarrow> ppath" where
  "parent p = (if parts p = [] then p else p\<lparr>parts := butlast (parts p)\<rparr>)"

definition path_name :: "ppath \<Rightarrow> string" where
  "path_name p = (if parts p = [] then [] else last (parts p))"

definition joinpath :: "ppath \<Rightarrow> ppath \<Rightarrow> ppath" where
  "joinpath a b =
     (if drive b \<noteq> [] then b
      else if root b then b\<lparr>drive := drive a\<rparr>
      else a\<lparr>parts := parts a @ parts b\<rparr>)"

text \<open>
  \<^verbatim>\<open>suffix\<close> and \<^verbatim>\<open>stem\<close> cut the name at its last dot, unless that dot is the
  first or the last character of the name.
\<close>

definition name_ext :: "string \<Rightarrow> string" where
  "name_ext n = rev (takeWhile (\<lambda>c. c \<noteq> CHR ''.'') (rev n))"

definition has_suffix :: "string \<Rightarrow> bool" where
  "has_suffix n = (CHR ''.'' \<in> set n \<and> name_ext n \<noteq> [] \<and> length (name_ext n) + 1 < length n)"

definition path_suffix :: "ppath \<Rightarrow> string" where
  "path_suffix p = (let n = path_name p in if has_suffix n then CHR ''.'' # name_ext n else [])"

definition path_stem :: "ppath \<Rightarrow> string" where
  "path_stem p =
     (let n = path_name p
      in if has_suffix n then take (length n - length (name_ext n) - 1) n else n)"

section \<open>JSON values and dictionaries\<close>

text \<open>
  What \<^verbatim>\<open>json.loads\<close> returns and \<^verbatim>\<open>json.dumps\<close> accepts. A Python \<^verbatim>\<open>dict\<close>
  with string keys is an association list in insertion order: \<open>map_of\<close> is
  \<^verbatim>\<open>d.get(k)\<close> and \<open>AList.update\<close> is \<^verbatim>\<open>d[k] = v\<close>. Floating-point numbers are
  left out.
\<close>

datatype json =
    JNull
  | JBool bool
  | JNum int
  | JStr string
  | JArr "json list"
  | JObj "(string \<times> json) list"

type_synonym pydict = "(string \<times> json) list"

fun truthy :: "json \<Rightarrow> bool" where
  "truthy JNull = False"
| "truthy (JBool b) = b"
| "truthy (JNum n) = (n \<noteq> 0)"
| "truthy (JStr s) = (s \<noteq> [])"
| "truthy (JArr xs) = (xs \<noteq> [])"
| "truthy (JObj kv) = (kv \<noteq> [])"

text \<open>\<^verbatim>\<open>d.get(k) or b\<close>: a missing key gives \<^verbatim>\<open>None\<close>, which is falsy.\<close>

definition py_or :: "json option \<Rightarrow> 'a \<Rightarrow> (json \<Rightarrow> 'a) \<Rightarrow> 'a" where
  "py_or a b f = (case a of None \<Rightarrow> b | Some v \<Rightarrow> if truthy v then f v else b)"

definition get_truthy :: "pydict \<Rightarrow> string \<Rightarrow> bool" where
  "get_truthy d k = py_or (map_of d k) False (\<lambda>_. True)"

definition setdefault :: "string \<Rightarrow> json \<Rightarrow> pydict \<Rightarrow> pydict" where
  "setdefault k v d = (case map_of d k of None \<Rightarrow> AList.update k v d | Some _ \<Rightarrow> d)"

text \<open>
  The text of a file is held by what \<^verbatim>\<open>json.loads\<close> makes of it: \<open>Json v\<close> is a text
  that parses to \<open>v\<close>, which is also the text \<^verbatim>\<open>json.dumps(v)\<close> writes, and
  \<open>NotJson s\<close> is a text on which reading or parsing raises.
\<close>

datatype ftext = Json json | NotJson string

definition json_dumps :: "json \<Rightarrow> ftext" where
  "json_dumps v = Json v"

fun json_loads :: "ftext \<Rightarrow> exn + json" where
  "json_loads (Json v) = Inr v"
| "json_loads (NotJson s) = Inl (JSONDecodeError ''Expecting value'')"

section \<open>The file system\<close>

text \<open>
  A file system is the platform flag, the working directory of the process, the nodes
  that exist under their resolved absolute paths, and the paths at which the system
  refuses to create or write (no permission, no space left). The root always exists.
  There are no symbolic links and names are compared exactly, so \<^verbatim>\<open>resolve()\<close> makes
  a path absolute and folds its \<^verbatim>\<open>..\<close> components. An operation that raises leaves
  the state it had reached, so every operation returns its outcome and the state.
\<close>

datatype 'c node = File 'c | Dir

record 'c fs =
  fs_nt :: bool
  cwd :: ppath
  nodes :: "(ppath \<times> 'c node) list"
  denied :: "ppath list"

definition collapse :: "string list \<Rightarrow> string list" where
  "collapse ws = foldl (\<lambda>acc w. if w = ''..'' then butlast acc else acc @ [w]) [] ws"

definition resolve :: "'c fs \<Rightarrow> ppath \<Rightarrow> ppath" where
  "resolve fs p =
     (let a = (if is_absolute (fs_nt fs) p then p else joinpath (cwd fs) p)
      in a\<lparr>parts := collapse (parts a)\<rparr>)"

definition node_at :: "'c fs \<Rightarrow> ppath \<Rightarrow> 'c node option" where
  "node_at fs k = (if parts k = [] then Some Dir else map_of (nodes fs) k)"

definition put :: "'c fs \<Rightarrow> ppath \<Rightarrow> 'c node \<Rightarrow> (exn + unit) \<times> 'c fs" where
  "put fs k n =
     (if k \<in> set (denied fs) then (Inl (OSError ''Permission denied''), fs)
      else (Inr (), fs\<lparr>nodes := AList.update k n (nodes fs)\<rparr>))"

text \<open>\<^verbatim>\<open>Path.exists\<close>, \<^verbatim>\<open>Path.read_text\<close> and \<^verbatim>\<open>open(p, "w")\<close> with one write.\<close>

definition path_exists :: "'c fs \<Rightarrow> ppath \<Rightarrow> bool" where
  "path_exists fs p = (node_at fs (resolve fs p) \<noteq> None)"

definition read_file :: "'c fs \<Rightarrow> ppath \<Rightarrow> exn + 'c" where
  "read_file fs p =
     (case node_at fs (resolve fs p) of
        Some (File c) \<Rightarrow> Inr c
      | Some Dir \<Rightarrow> Inl (OSError ''Is a directory'')
      | None \<Rightarrow> Inl (OSError ''No such file or directory''))"

definition write_file :: "'c fs \<Rightarrow> ppath \<Rightarrow> 'c \<Rightarrow> (exn + unit) \<times> 'c fs" where
  "write_file fs p c =
     (let k = resolve fs p
      in case node_at fs k of
           Some Dir \<Rightarrow> (Inl (OSError ''Is a directory''), fs)
         | _ \<Rightarrow>
           (case node_at fs (parent k) of
              Some Dir \<Rightarrow> put fs k (File c)
            | Some (File _) \<Rightarrow> (Inl (OSError ''Not a directory''), fs)
            | None \<Rightarrow> (Inl (OSError ''No such file or directory''), fs)))"

text \<open>\<^verbatim>\<open>Path.mkdir(exist_ok=True)\<close>, without and with \<^verbatim>\<open>parents=True\<close>.\<close>

definition mkdir_exist_ok :: "'c fs \<Rightarrow> ppath \<Rightarrow> (exn + unit) \<times> 'c fs" where
  "mkdir_exist_ok fs p =
     (let k = resolve fs p
      in case node_at fs k of
           Some Dir \<Rightarrow> (Inr (), fs)
         | Some (File _) \<Rightarrow> (Inl (OSError ''File exists''), fs)
         | None \<Rightarrow>
           (case node_at fs (parent k) of
              Some Dir \<Rightarrow> put fs k Dir
            | Some (File _) \<Rightarrow> (Inl (OSError ''Not a directory''), fs)
            | None \<Rightarrow> (Inl (OSError ''No such file or directory''), fs)))"

function makedirs :: "'c fs \<Rightarrow> ppath \<Rightarrow> (exn + unit) \<times> 'c fs" where
  "makedirs fs k =
     (if parts k = [] then (Inr (), fs)
      else case map_of (nodes fs) k of
             Some Dir \<Rightarrow> (Inr (), fs)
           | Some (File _) \<Rightarrow> (Inl (OSError ''File exists''), fs)
           | None \<Rightarrow>
             (case node_at fs (parent k) of
                Some Dir \<Rightarrow> put fs k Dir
              | Some (File _) \<Rightarrow> (Inl (OSError ''Not a directory''), fs)
              | None \<Rightarrow>
                (case makedirs fs (parent k) of
                   (Inl e, fs1) \<Rightarrow> (Inl e, fs1)
                 | (Inr _, fs1) \<Rightarrow> put fs1 k Dir)))"
  by pat_completeness auto
termination
  by (relation "measure (\<lambda>(fs, k). length (parts k))") (auto simp: parent_def)

declare makedirs.simps [simp del]

definition mkdir_parents :: "'c fs \<Rightarrow> ppath \<Rightarrow> (exn + unit) \<times> 'c fs" where
  "mkdir_parents fs p = makedirs fs (resolve fs p)"

text \<open>
  \<^verbatim>\<open>sorted(d.glob("*.json"))\<close>: the entries of the directory whose name ends in
  \<^verbatim>\<open>.json\<close>, each once, as paths under \<open>d\<close> in the order of their names.
\<close>

definition listdir :: "'c fs \<Rightarrow> ppath \<Rightarrow> string list" where
  "listdir fs d =
     (let kd = resolve fs d
      in remdups (map (\<lambda>(k, n). last (parts k))
           (filter (\<lambda>(k, n). parts k \<noteq> [] \<and> parent k = kd) (nodes fs))))"

definition glob_json :: "'c fs \<Rightarrow> ppath \<Rightarrow> ppath list" where
  "glob_json fs d =
     map (\<lambda>n. d\<lparr>parts := parts d @ [n]\<rparr>)
       (sort (filter (\<lambda>n. endswith n ''.json'') (listdir fs d)))"

section \<open>Launching\<close>

definition is_windows_shortcut :: "ppath \<Rightarrow> bool" where
  "is_windows_shortcut p = (lower (path_suffix p) \<in> {''.lnk'', ''.url'', ''.bat'', ''.cmd''})"

text \<open>
  The three mechanisms of the operating system that \<^verbatim>\<open>launch_game\<close> calls are the
  fields of \<open>os_env\<close>: each answers \<open>None\<close> when the call returns and \<open>Some e\<close> when it
  raises \<open>e\<close>. The calls that were made are appended to a trace, which is the
  observable effect of a launch.
\<close>

datatype action =
    OpenURL string
  | StartFile string
  | Popen "string list" string

record os_env =
  os_nt :: bool
  webbrowser_open :: "string \<Rightarrow> exn option"
  os_startfile :: "string \<Rightarrow> exn option"
  subprocess_Popen :: "string list \<Rightarrow> string \<Rightarrow> exn option"

definition url_prefixes :: "string list" where
  "url_prefixes = [''http://'', ''https://'', ''steam://'', ''epic://'']"

definition is_url :: "string \<Rightarrow> bool" where
  "is_url game_path = (\<exists>p \<in> set url_prefixes. startswith game_path p)"

text \<open>The body of the \<^verbatim>\<open>try\<close> block: a raise is \<open>Inl\<close>, a \<^verbatim>\<open>return\<close> is \<open>Inr\<close>.\<close>

definition launch_try ::
  "os_env \<Rightarrow> string \<Rightarrow> string option \<Rightarrow> string list \<Rightarrow> action list
     \<Rightarrow> (exn + bool \<times> string) \<times> action list" where
  "launch_try env game_path work_dir args tr =
     (if is_url game_path then
        (case webbrowser_open env game_path of
           Some e \<Rightarrow> (Inl e, tr @ [OpenURL game_path])
         | None \<Rightarrow> (Inr (True, ''Opened URL/protocol''), tr @ [OpenURL game_path]))
      else
        let p = Path (os_nt env) game_path in
        if os_nt env \<and> is_windows_shortcut p \<and> args = [] then
          (case os_startfile env (path_str (os_nt env) p) of
             Some e \<Rightarrow> (Inl e, tr @ [StartFile (path_str (os_nt env) p)])
           | None \<Rightarrow> (Inr (True, ''Launched via Shell''), tr @ [StartFile (path_str (os_nt env) p)]))
        else
          let cwd = (case work_dir of
                       None \<Rightarrow> path_str (os_nt env) (parent p)
                     | Some w \<Rightarrow> if w = [] then path_str (os_nt env) (parent p) else w);
              cmd = path_str (os_nt env) p # args
          in (case subprocess_Popen env cmd cwd of
                Some e \<Rightarrow> (Inl e, tr @ [Popen cmd cwd])
              | None \<Rightarrow> (Inr (True, ''Launched''), tr @ [Popen cmd cwd])))"

text \<open>
  \<^verbatim>\<open>launch_game\<close>: \<^verbatim>\<open>args or []\<close>, then the \<^verbatim>\<open>try\<close> block, whose
  \<^verbatim>\<open>except Exception as e\<close> turns a raise into \<^verbatim>\<open>(False, str(e))\<close>. The result stays
  in \<open>exn + _\<close> so that "does not raise" is a statement about the value.
\<close>

definition launch_game ::
  "os_env \<Rightarrow> string \<Rightarrow> string option \<Rightarrow> string list option \<Rightarrow> action list
     \<Rightarrow> (exn + bool \<times> string) \<times> action list" where
  "launch_game env game_path work_dir args tr =
     (let args' = (case args of None \<Rightarrow> [] | Some a \<Rightarrow> a)
      in case launch_try env game_path work_dir args' tr of
           (Inl e, tr') \<Rightarrow> (Inr (False, exn_str e), tr')
         | (Inr r, tr') \<Rightarrow> (Inr r, tr'))"

datatype kind = Protocol | ShellOpen | DirectExec

fun kind_of :: "action \<Rightarrow> kind" where
  "kind_of (OpenURL _) = Protocol"
| "kind_of (StartFile _) = ShellOpen"
| "kind_of (Popen _ _) = DirectExec"


section \<open>Catalog files\<close>

definition GAMES_DIR :: "bool \<Rightarrow> ppath" where
  "GAMES_DIR nt = Path nt ''games''"

definition SCHEMA_DEFAULT :: "'c fs \<Rightarrow> pydict" where
  "SCHEMA_DEFAULT fs =
     (let nt = fs_nt fs; here = cwd fs
      in [(''id'', JStr ''sample''),
          (''name'', JStr ''Sample Game''),
          (''game_path'', JStr (path_str nt (joinpath here (Path nt ''SampleGame.exe'')))),
          (''work_dir'', JStr (path_str nt here)),
          (''args'', JArr []),
          (''news_url'',
             JStr ''https://raw.githubusercontent.com/github/markup/master/README.md''),
          (''icon'', JStr ''assets/empty_icon.png''),
          (''cover'', JStr ''assets/empty_background.jpg''),
          (''update'', JObj
             [(''url'', JStr []),
              (''dest'', JStr (path_str nt (joinpath here (Path nt ''sample_update.zip'')))),
              (''extract_to'', JStr (path_str nt here))])])"

text \<open>What the two \<^verbatim>\<open>logging\<close> calls of the catalog record: the file or the id, and the exception.\<close>

datatype log_entry =
    SkipBad string exn
  | SaveFailed json exn

text \<open>
  The \<^verbatim>\<open>try\<close> block of \<^verbatim>\<open>_read_game_file\<close>. Only a \<^verbatim>\<open>dict\<close> gets through the
  three statements on \<^verbatim>\<open>id\<close> and \<^verbatim>\<open>name\<close>: on any other JSON value one of them raises
  (\<^verbatim>\<open>TypeError\<close> or \<^verbatim>\<open>AttributeError\<close>, here always the former). \<^verbatim>\<open>Path(x)\<close> raises
  \<^verbatim>\<open>TypeError\<close> when \<open>x\<close> is not a string.
\<close>

definition derive_work_dir :: "'c fs \<Rightarrow> pydict \<Rightarrow> exn + pydict" where
  "derive_work_dir fs data =
     (if get_truthy data ''work_dir'' then Inr data
      else
        case py_or (map_of data ''game_path'') (Inr None)
               (\<lambda>v. case v of JStr s \<Rightarrow> Inr (Some (Path (fs_nt fs) s))
                             | _ \<Rightarrow> Inl (TypeError ''expected str, bytes or os.PathLike object''))
        of
          Inl e \<Rightarrow> Inl e
        | Inr gp \<Rightarrow>
            let wd = (case gp of
                        None \<Rightarrow> cwd fs
                      | Some g \<Rightarrow> if path_exists fs g then parent g else cwd fs)
            in Inr (AList.update ''work_dir'' (JStr (path_str (fs_nt fs) wd)) data))"

definition read_try :: "ftext fs \<Rightarrow> ppath \<Rightarrow> exn + pydict" where
  "read_try fs p =
     (case read_file fs p of
        Inl e \<Rightarrow> Inl e
      | Inr t \<Rightarrow>
        (case json_loads t of
           Inl e \<Rightarrow> Inl e
         | Inr (JObj data) \<Rightarrow>
             (let d1 = (if map_of data ''id'' = None
                        then AList.update ''id'' (JStr (path_stem p)) data else data)
              in case map_of d1 ''id'' of
                   None \<Rightarrow> Inl (KeyError ''id'')
                 | Some i \<Rightarrow>
                   (case derive_work_dir fs (setdefault ''name'' i d1) of
                      Inl e \<Rightarrow> Inl e
                    | Inr d3 \<Rightarrow>
                        Inr (AList.update ''meta_path'' (JStr (path_str (fs_nt fs) p)) d3)))
         | Inr _ \<Rightarrow> Inl (TypeError ''object does not support item assignment'')))"

definition read_game_file :: "ftext fs \<Rightarrow> ppath \<Rightarrow> pydict \<times> log_entry list" where
  "read_game_file fs p =
     (case read_try fs p of
        Inl e \<Rightarrow> ([], [SkipBad (path_name p) e])
      | Inr data \<Rightarrow> (data, []))"

text \<open>
  \<^verbatim>\<open>_write_game_file\<close>: nothing in it catches an exception. It returns the path and
  the record with \<^verbatim>\<open>meta_path\<close> set; \<^verbatim>\<open>.lower()\<close> raises \<^verbatim>\<open>AttributeError\<close> on a
  value that is not a string.
\<close>

definition game_gid :: "pydict \<Rightarrow> exn + string" where
  "game_gid game =
     (case py_or (map_of game ''id'') (py_or (map_of game ''name'') (JStr ''game'') id) id of
        JStr s \<Rightarrow> Inr (replace_char CHR '' '' CHR ''_'' (lower s))
      | _ \<Rightarrow> Inl (AttributeError ''object has no attribute lower''))"

definition game_file_path :: "bool \<Rightarrow> pydict \<Rightarrow> string \<Rightarrow> exn + ppath" where
  "game_file_path nt game gid =
     py_or (map_of game ''meta_path'')
       (Inr (joinpath (GAMES_DIR nt) (Path nt (gid @ ''.json''))))
       (\<lambda>v. case v of JStr m \<Rightarrow> Inr (Path nt m)
                     | _ \<Rightarrow> Inl (TypeError ''expected str, bytes or os.PathLike object''))"

definition to_save :: "pydict \<Rightarrow> pydict" where
  "to_save game = filter (\<lambda>(k, v). k \<noteq> ''meta_path'') game"

definition write_game_file :: "ftext fs \<Rightarrow> pydict \<Rightarrow> (exn + ppath \<times> pydict) \<times> ftext fs" where
  "write_game_file fs game =
     (case game_gid game of
        Inl e \<Rightarrow> (Inl e, fs)
      | Inr gid \<Rightarrow>
        (case game_file_path (fs_nt fs) game gid of
           Inl e \<Rightarrow> (Inl e, fs)
         | Inr p \<Rightarrow>
           (case mkdir_parents fs (parent p) of
              (Inl e, fs1) \<Rightarrow> (Inl e, fs1)
            | (Inr _, fs1) \<Rightarrow>
              (case write_file fs1 p (json_dumps (JObj (to_save game))) of
                 (Inl e, fs2) \<Rightarrow> (Inl e, fs2)
               | (Inr _, fs2) \<Rightarrow>
                   (Inr (p, AList.update ''meta_path'' (JStr (path_str (fs_nt fs) p)) game),
                    fs2)))))"

text \<open>The \<^verbatim>\<open>for\<close> loop of \<^verbatim>\<open>load_games\<close>, with the list built so far and the warnings.\<close>

fun load_loop ::
  "ftext fs \<Rightarrow> ppath list \<Rightarrow> pydict list \<Rightarrow> log_entry list \<Rightarrow> pydict list \<times> log_entry list" where
  "load_loop fs [] games lg = (games, lg)"
| "load_loop fs (p # ps) games lg =
     (case read_game_file fs p of
        (g, w) \<Rightarrow> load_loop fs ps (if g \<noteq> [] then games @ [g] else games) (lg @ w))"

definition load_games :: "ftext fs \<Rightarrow> (exn + pydict list) \<times> ftext fs \<times> log_entry list" where
  "load_games fs =
     (case mkdir_exist_ok fs (GAMES_DIR (fs_nt fs)) of
        (Inl e, fs1) \<Rightarrow> (Inl e, fs1, [])
      | (Inr _, fs1) \<Rightarrow>
        (case load_loop fs1 (glob_json fs1 (GAMES_DIR (fs_nt fs1))) [] [] of
           (games, lg) \<Rightarrow>
             if games = [] then
               (let sample = AList.update ''name'' (JStr ''Sample Game'')
                               (AList.update ''id'' (JStr ''sample'') (SCHEMA_DEFAULT fs1))
                in case write_game_file fs1 sample of
                     (Inl e, fs2) \<Rightarrow> (Inl e, fs2, lg)
                   | (Inr (p, sample'), fs2) \<Rightarrow> (Inr [sample'], fs2, lg))
             else (Inr games, fs1, lg)))"

text \<open>
  \<^verbatim>\<open>save_games\<close>: each record in its own \<^verbatim>\<open>try\<close>; the \<^verbatim>\<open>except\<close> logs and the loop
  goes on. The state is the file system, the records as the caller sees them after
  the call, and the errors logged.
\<close>

fun save_loop ::
  "ftext fs \<Rightarrow> pydict list \<Rightarrow> ftext fs \<times> pydict list \<times> log_entry list" where
  "save_loop fs [] = (fs, [], [])"
| "save_loop fs (g # gs) =
     (case write_game_file fs g of
        (Inl e, fs1) \<Rightarrow>
          (case save_loop fs1 gs of
             (fs2, gs', lg) \<Rightarrow>
               (fs2, g # gs',
                SaveFailed (case map_of g ''id'' of None \<Rightarrow> JStr ''(no id)'' | Some i \<Rightarrow> i) e # lg))
      | (Inr (p, g'), fs1) \<Rightarrow>
          (case save_loop fs1 gs of (fs2, gs', lg) \<Rightarrow> (fs2, g' # gs', lg)))"

definition save_games ::
  "ftext fs \<Rightarrow> pydict list \<Rightarrow> (exn + unit) \<times> ftext fs \<times> pydict list \<times> log_entry list" where
  "save_games fs games = (Inr (), save_loop fs games)"

text \<open>
  A catalog file that \<^verbatim>\<open>_read_game_file\<close> turns into a record: its text parses to a
  JSON object, and either \<^verbatim>\<open>work_dir\<close> is truthy or \<^verbatim>\<open>game_path\<close> is falsy or a
  string, so that the default for \<^verbatim>\<open>work_dir\<close> can be derived.
\<close>

fun is_str :: "json \<Rightarrow> bool" where
  "is_str (JStr s) = True"
| "is_str v = False"

definition well_formed_record :: "pydict \<Rightarrow> bool" where
  "well_formed_record data =
     (get_truthy data ''work_dir'' \<or> py_or (map_of data ''game_path'') True is_str)"

definition valid_game_file :: "ftext fs \<Rightarrow> ppath \<Rightarrow> bool" where
  "valid_game_file fs p =
     (case read_file fs p of
        Inr (Json (JObj data)) \<Rightarrow> well_formed_record data
      | _ \<Rightarrow> False)"

definition sample_path :: "bool \<Rightarrow> ppath" where
  "sample_path nt = joinpath (GAMES_DIR nt) (Path nt ''sample.json'')"

section \<open>Archive extraction\<close>

text \<open>
  An open \<^verbatim>\<open>ZipFile\<close> is the list of its entries, each with the recorded name and the
  decompressed content. An entry is a directory when its name ends in a slash.
\<close>

record zip_info =
  filename :: string
  zdata :: string

definition zi_is_dir :: "zip_info \<Rightarrow> bool" where
  "zi_is_dir info = endswith (filename info) ''/''"

text \<open>The \<^verbatim>\<open>for\<close> loop of \<^verbatim>\<open>_safe_extract_zip\<close>; \<open>base\<close> is \<^verbatim>\<open>dest_dir.resolve()\<close>.\<close>

fun extract_entries :: "string fs \<Rightarrow> ppath \<Rightarrow> zip_info list \<Rightarrow> (exn + unit) \<times> string fs" where
  "extract_entries fs base [] = (Inr (), fs)"
| "extract_entries fs base (info # rest) =
     (let rel = Path (fs_nt fs) (filename info) in
      if is_absolute (fs_nt fs) rel then
        (Inl (Exception (''Unsafe absolute path in zip: '' @ filename info)), fs)
      else
        let out = resolve fs (joinpath base rel) in
        if \<not> startswith (path_str (fs_nt fs) out) (path_str (fs_nt fs) base) then
          (Inl (Exception (''Unsafe path traversal in zip: '' @ filename info)), fs)
        else if zi_is_dir info then
          (case mkdir_parents fs out of
             (Inl e, fs1) \<Rightarrow> (Inl e, fs1)
           | (Inr _, fs1) \<Rightarrow> extract_entries fs1 base rest)
        else
          (case mkdir_parents fs (parent out) of
             (Inl e, fs1) \<Rightarrow> (Inl e, fs1)
           | (Inr _, fs1) \<Rightarrow>
             (case write_file fs1 out (zdata info) of
                (Inl e, fs2) \<Rightarrow> (Inl e, fs2)
              | (Inr _, fs2) \<Rightarrow> extract_entries fs2 base rest)))"

definition safe_extract_zip ::
  "string fs \<Rightarrow> zip_info list \<Rightarrow> ppath \<Rightarrow> (exn + unit) \<times> string fs" where
  "safe_extract_zip fs zf dest_dir = extract_entries fs (resolve fs dest_dir) zf"

text \<open>
  What "inside the destination" means for a resolved path: the same drive and root, and
  the components of the destination as a prefix of its components.
\<close>

definition is_inside :: "ppath \<Rightarrow> ppath \<Rightarrow> bool" where
  "is_inside base out =
     (drive out = drive base \<and> root out = root base \<and> prefix (parts base) (parts out))"

section \<open>Downloading\<close>

text \<open>
  A response of the HTTP session: the status, the \<^verbatim>\<open>Content-Length\<close> header when there
  is one, the chunks \<^verbatim>\<open>iter_content\<close> yields, and the exception it raises after them
  when the connection breaks. \<^verbatim>\<open>raise_for_status\<close> is the one of \<^verbatim>\<open>requests\<close>: it
  raises \<^verbatim>\<open>HTTPError\<close> for a status from 400 to 599 and for no other.
\<close>

record response =
  status_code :: nat
  content_length :: "string option"
  chunks :: "string list"
  stream_error :: "exn option"

definition raise_for_status :: "response \<Rightarrow> exn + unit" where
  "raise_for_status r =
     (if 400 \<le> status_code r \<and> status_code r < 500 then Inl (HTTPError ''Client Error'')
      else if 500 \<le> status_code r \<and> status_code r < 600 then Inl (HTTPError ''Server Error'')
      else Inr ())"

text \<open>
  \<^verbatim>\<open>int(s)\<close> on a string: surrounding white space, an optional sign, then decimal
  digits, with single underscores allowed between digits.
\<close>

definition is_space :: "char \<Rightarrow> bool" where
  "is_space c = (c \<in> {CHR '' '', CHR 0x09, CHR 0x0A, CHR 0x0B, CHR 0x0C, CHR 0x0D})"

definition strip :: "string \<Rightarrow> string" where
  "strip s = rev (dropWhile is_space (rev (dropWhile is_space s)))"

definition is_digit :: "char \<Rightarrow> bool" where
  "is_digit c = (let n = (of_char c :: nat) in 48 \<le> n \<and> n \<le> 57)"

definition digits_value :: "string \<Rightarrow> int" where
  "digits_value ds = foldl (\<lambda>a c. 10 * a + (int (of_char c) - 48)) 0 ds"

definition py_int :: "string \<Rightarrow> exn + int" where
  "py_int s =
     (let t = strip s;
          neg = (t \<noteq> [] \<and> hd t = CHR ''-'');
          body = (if t \<noteq> [] \<and> (hd t = CHR ''-'' \<or> hd t = CHR ''+'') then tl t else t);
          groups = split_by (\<lambda>c. c = CHR ''_'') body
      in if (\<forall>g \<in> set groups. g \<noteq> [] \<and> (\<forall>c \<in> set g. is_digit c))
         then Inr ((if neg then - 1 else 1) * digits_value (concat groups))
         else Inl (ValueError ''invalid literal for int() with base 10''))"

text \<open>\<^verbatim>\<open>int(r.headers.get("Content-Length", "0") or 0)\<close>\<close>

definition total_of :: "response \<Rightarrow> exn + int" where
  "total_of r =
     (case content_length r of
        None \<Rightarrow> py_int ''0''
      | Some h \<Rightarrow> if h = [] then Inr 0 else py_int h)"

text \<open>
  The state of a download: the file system and the calls made to the two callbacks. A
  progress value is the exact quotient \<^verbatim>\<open>downloaded / total\<close>; the float Python
  passes is that quotient rounded to the nearest double, which keeps the order and the
  values 0 and 1.
\<close>

record dl_state =
  dl_fs :: "string fs"
  progress_calls :: "rat list"
  status_calls :: "string list"

definition append_file :: "string fs \<Rightarrow> ppath \<Rightarrow> string \<Rightarrow> string fs" where
  "append_file fs p c =
     (let k = resolve fs p
      in case node_at fs k of
           Some (File old) \<Rightarrow> fs\<lparr>nodes := AList.update k (File (old @ c)) (nodes fs)\<rparr>
         | _ \<Rightarrow> fs)"

text \<open>The loop over \<^verbatim>\<open>iter_content\<close>, with \<^verbatim>\<open>downloaded\<close> as it stands before the chunk.\<close>

fun write_chunks :: "int \<Rightarrow> bool \<Rightarrow> ppath \<Rightarrow> string list \<Rightarrow> int \<Rightarrow> dl_state \<Rightarrow> dl_state" where
  "write_chunks total_bytes progress_cb dest [] downloaded st = st"
| "write_chunks total_bytes progress_cb dest (chunk # rest) downloaded st =
     (if chunk = [] then write_chunks total_bytes progress_cb dest rest downloaded st
      else
        let st1 = st\<lparr>dl_fs := append_file (dl_fs st) dest chunk\<rparr>;
            downloaded' = downloaded + int (length chunk);
            st2 = (if total_bytes \<noteq> 0 \<and> progress_cb
                   then st1\<lparr>progress_calls :=
                              progress_calls st1 @ [of_int downloaded' / of_int total_bytes]\<rparr>
                   else st1)
        in write_chunks total_bytes progress_cb dest rest downloaded' st2)"

record net_env =
  http_get :: "string \<Rightarrow> exn + response"
  zip_parse :: "string \<Rightarrow> exn + zip_info list"

text \<open>The \<^verbatim>\<open>with _HTTP.get(...)\<close> block of \<^verbatim>\<open>download_update\<close>.\<close>

definition download_stream ::
  "net_env \<Rightarrow> string \<Rightarrow> string \<Rightarrow> bool \<Rightarrow> dl_state \<Rightarrow> (exn + unit) \<times> dl_state" where
  "download_stream env url dest progress_cb st =
     (case http_get env url of
        Inl e \<Rightarrow> (Inl e, st)
      | Inr r \<Rightarrow>
        (case raise_for_status r of
           Inl e \<Rightarrow> (Inl e, st)
         | Inr _ \<Rightarrow>
           (case total_of r of
              Inl e \<Rightarrow> (Inl e, st)
            | Inr total_bytes \<Rightarrow>
              (let p = Path (fs_nt (dl_fs st)) dest
               in case mkdir_parents (dl_fs st) (parent p) of
                    (Inl e, fs1) \<Rightarrow> (Inl e, st\<lparr>dl_fs := fs1\<rparr>)
                  | (Inr _, fs1) \<Rightarrow>
                    (case write_file fs1 p [] of
                       (Inl e, fs2) \<Rightarrow> (Inl e, st\<lparr>dl_fs := fs2\<rparr>)
                     | (Inr _, fs2) \<Rightarrow>
                       (let st' = write_chunks total_bytes progress_cb p (chunks r) 0
                                    (st\<lparr>dl_fs := fs2\<rparr>)
                        in case stream_error r of
                             Some e \<Rightarrow> (Inl e, st')
                           | None \<Rightarrow> (Inr (), st')))))))"

definition extracting_msg :: string where
  "extracting_msg = ''Extracting'' @ [CHR 0xE2, CHR 0x80, CHR 0xA6]"

definition download_update ::
  "net_env \<Rightarrow> string \<Rightarrow> string \<Rightarrow> string option \<Rightarrow> bool \<Rightarrow> bool \<Rightarrow> dl_state
     \<Rightarrow> (exn + unit) \<times> dl_state" where
  "download_update env url dest extract_to progress_cb status_cb st =
     (case download_stream env url dest progress_cb st of
        (Inl e, st1) \<Rightarrow> (Inl e, st1)
      | (Inr _, st1) \<Rightarrow>
        (case (if endswith (lower dest) ''.zip'' then extract_to else None) of
           None \<Rightarrow> (Inr (), st1)
         | Some target \<Rightarrow>
           if target = [] then (Inr (), st1)
           else
             let st2 = (if status_cb
                        then st1\<lparr>status_calls := status_calls st1 @ [extracting_msg]\<rparr>
                        else st1)
             in case read_file (dl_fs st2) (Path (fs_nt (dl_fs st2)) dest) of
                  Inl e \<Rightarrow> (Inl e, st2)
                | Inr bytes \<Rightarrow>
                  (case zip_parse env bytes of
                     Inl e \<Rightarrow> (Inl e, st2)
                   | Inr zf \<Rightarrow>
                     (case safe_extract_zip (dl_fs st2) zf (Path (fs_nt (dl_fs st2)) target) of
                        (r, fs3) \<Rightarrow> (r, st2\<lparr>dl_fs := fs3\<rparr>)))))"

text \<open>The values of \<^verbatim>\<open>downloaded\<close> after each non-empty chunk, starting from \<open>d\<close>.\<close>

fun running :: "int \<Rightarrow> string list \<Rightarrow> int list" where
  "running d [] = []"
| "running d (c # cs) =
     (if c = [] then running d cs else (d + int (length c)) # running (d + int (length c)) cs)"

section \<open>Concrete inputs\<close>

text \<open>A Windows machine on which the browser and the shell answer and no process can be spawned.\<close>

definition win_env :: os_env where
  "win_env = \<lparr> os_nt = True, webbrowser_open = (\<lambda>_. None), os_startfile = (\<lambda>_. None),
               subprocess_Popen = (\<lambda>_ _. Some (OSError ''The system cannot find the file specified'')) \<rparr>"



text \<open>
  A POSIX machine with the process in \<^verbatim>\<open>/home/user\<close>, no catalog directory yet and no
  write refused; two records.
\<close>

definition home_user :: ppath where
  "home_user = \<lparr>drive = [], root = True, parts = [''home'', ''user'']\<rparr>"

definition posix_fs :: "ftext fs" where
  "posix_fs = \<lparr> fs_nt = False, cwd = home_user,
                nodes = [(\<lparr>drive = [], root = True, parts = [''home'']\<rparr>, Dir), (home_user, Dir)],
                denied = [] \<rparr>"

definition game_empty_wd :: pydict where
  "game_empty_wd = [(''id'', JStr ''g''), (''name'', JStr ''G''), (''work_dir'', JStr [])]"

definition game_doom :: pydict where
  "game_doom = [(''id'', JStr ''Doom II''), (''name'', JStr ''Doom''),
                (''game_path'', JStr ''/opt/doom/doom''), (''work_dir'', JStr ''/opt/doom''),
                (''args'', JArr [JStr ''-fast''])]"

text \<open>
  The same machine with a catalog directory holding two records, a text that is not
  JSON, a JSON array and a file that is not a \<^verbatim>\<open>.json\<close> file; with a catalog directory
  holding only a text that is not JSON; and with a catalog directory in which the file
  of the first record cannot be written.
\<close>

definition games_key :: ppath where
  "games_key = \<lparr>drive = [], root = True, parts = [''home'', ''user'', ''games'']\<rparr>"

definition in_games :: "string \<Rightarrow> ppath" where
  "in_games n = \<lparr>drive = [], root = True, parts = [''home'', ''user'', ''games'', n]\<rparr>"

definition catalog_fs :: "ftext fs" where
  "catalog_fs = posix_fs\<lparr>nodes :=
     [(in_games ''b.json'', File (NotJson ''{oops'')),
      (in_games ''d.json'', File (Json (JObj [(''id'', JStr ''delta''), (''work_dir'', JStr ''/opt/d'')]))),
      (in_games ''a.json'', File (Json (JObj [(''name'', JStr ''Alpha''), (''game_path'', JStr ''/opt/a/a.exe'')]))),
      (in_games ''c.json'', File (Json (JArr []))),
      (in_games ''notes.txt'', File (NotJson ''todo''))] @
     (games_key, Dir) # nodes posix_fs\<rparr>"

definition empty_catalog_fs :: "ftext fs" where
  "empty_catalog_fs = posix_fs\<lparr>nodes :=
     (in_games ''b.json'', File (NotJson ''{oops'')) # (games_key, Dir) # nodes posix_fs\<rparr>"

definition readonly_fs :: "ftext fs" where
  "readonly_fs = posix_fs\<lparr>nodes := (games_key, Dir) # nodes posix_fs,
                           denied := [in_games ''doom_ii.json'']\<rparr>"

text \<open>
  The same machine for byte files, with \<^verbatim>\<open>/tmp/dest\<close> as an extraction target and an
  earlier download in \<^verbatim>\<open>/tmp/dl/u.bin\<close>; an archive entry that names a sibling of the
  target; a session that answers every request with one given response and has no
  archive to parse.
\<close>

definition bytes_fs :: "string fs" where
  "bytes_fs = \<lparr> fs_nt = False, cwd = home_user,
                nodes = [(\<lparr>drive = [], root = True, parts = [''home'']\<rparr>, Dir),
                         (home_user, Dir),
                         (\<lparr>drive = [], root = True, parts = [''tmp'']\<rparr>, Dir),
                         (\<lparr>drive = [], root = True, parts = [''tmp'', ''dest'']\<rparr>, Dir),
                         (\<lparr>drive = [], root = True, parts = [''tmp'', ''dl'']\<rparr>, Dir),
                         (\<lparr>drive = [], root = True, parts = [''tmp'', ''dl'', ''u.bin'']\<rparr>,
                          File ''old build'')],
                denied = [] \<rparr>"

definition sibling_entry :: zip_info where
  "sibling_entry = \<lparr>filename = ''../dest_evil/x.txt'', zdata = ''pwned''\<rparr>"

definition answer_with :: "response \<Rightarrow> net_env" where
  "answer_with r = \<lparr> http_get = (\<lambda>u. Inr r),
                     zip_parse = (\<lambda>b. Inl (BadZipFile ''File is not a zip file'')) \<rparr>"

definition dl_start :: dl_state where
  "dl_start = \<lparr> dl_fs = bytes_fs, progress_calls = [], status_calls = [] \<rparr>"

definition exact_response :: response where
  "exact_response = \<lparr>status_code = 200, content_length = Some ''10'',
                      chunks = [''0123'', [], ''456789''], stream_error = None\<rparr>"

definition decoded_response :: response where
  "decoded_response = \<lparr>status_code = 200, content_length = Some ''10'',
                        chunks = [''0123456789'', ''0123456789''], stream_error = None\<rparr>"

definition not_found_response :: response where
  "not_found_response = \<lparr>status_code = 404, content_length = Some ''9'',
                          chunks = [''not found''], stream_error = None\<rparr>"

definition multiple_choices_response :: response where
  "multiple_choices_response = \<lparr>status_code = 300, content_length = None,
                                 chunks = [''choose''], stream_error = None\<rparr>"

section \<open>Facts about the file system and the dictionaries\<close>

lemma resolve_cong: "fs_nt fs' = fs_nt fs \<Longrightarrow> cwd fs' = cwd fs \<Longrightarrow> resolve fs' p = resolve fs p"
  by (simp add: resolve_def)

lemma put_frame:
  "put fs k n = (r, fs') \<Longrightarrow> fs_nt fs' = fs_nt fs \<and> cwd fs' = cwd fs \<and> denied fs' = denied fs"
  by (auto simp: put_def split: if_splits)

lemma put_ok:
  "put fs k n = (Inr u, fs') \<Longrightarrow> k \<notin> set (denied fs) \<and> nodes fs' = AList.update k n (nodes fs)"
  by (auto simp: put_def split: if_splits)

lemma put_denied: "k \<in> set (denied fs) \<Longrightarrow> put fs k n = (Inl (OSError ''Permission denied''), fs)"
  by (simp add: put_def)

lemma put_allowed:
  "k \<notin> set (denied fs) \<Longrightarrow> put fs k n = (Inr (), fs\<lparr>nodes := AList.update k n (nodes fs)\<rparr>)"
  by (simp add: put_def)

lemma write_file_cases:
  "write_file fs p c =
     (if node_at fs (resolve fs p) = Some Dir then (Inl (OSError ''Is a directory''), fs)
      else if node_at fs (parent (resolve fs p)) = Some Dir then put fs (resolve fs p) (File c)
      else if node_at fs (parent (resolve fs p)) = None
           then (Inl (OSError ''No such file or directory''), fs)
      else (Inl (OSError ''Not a directory''), fs))"
proof (cases "node_at fs (resolve fs p)")
  case None
  show ?thesis
  proof (cases "node_at fs (parent (resolve fs p))")
    case N2: None
    with None show ?thesis by (simp add: write_file_def)
  next
    case (Some m)
    with None show ?thesis by (cases m) (simp_all add: write_file_def)
  qed
next
  case (Some n)
  show ?thesis
  proof (cases n)
    case Dir
    with Some show ?thesis by (simp add: write_file_def)
  next
    case (File x)
    show ?thesis
    proof (cases "node_at fs (parent (resolve fs p))")
      case None
      with Some File show ?thesis by (simp add: write_file_def)
    next
      case S2: (Some m)
      with Some File show ?thesis by (cases m) (simp_all add: write_file_def)
    qed
  qed
qed

lemma write_file_frame:
  assumes "write_file fs p c = (r, fs')"
  shows "fs_nt fs' = fs_nt fs \<and> cwd fs' = cwd fs \<and> denied fs' = denied fs"
proof -
  have "fs' = fs \<or> put fs (resolve fs p) (File c) = (r, fs')"
    using assms unfolding write_file_cases by (auto split: if_splits)
  then show ?thesis
  proof
    assume "fs' = fs" then show ?thesis by simp
  next
    assume "put fs (resolve fs p) (File c) = (r, fs')"
    then show ?thesis by (rule put_frame)
  qed
qed

lemma write_file_ok:
  assumes "write_file fs p c = (Inr u, fs')"
  shows "read_file fs' p = Inr c"
    and "resolve fs p \<notin> set (denied fs)"
    and "nodes fs' = AList.update (resolve fs p) (File c) (nodes fs)"
proof -
  let ?k = "resolve fs p"
  from assms have pt: "put fs ?k (File c) = (Inr u, fs')" and nd: "node_at fs ?k \<noteq> Some Dir"
    unfolding write_file_cases by (simp_all split: if_splits)
  from put_ok [OF pt] show "resolve fs p \<notin> set (denied fs)"
    and n: "nodes fs' = AList.update (resolve fs p) (File c) (nodes fs)" by simp_all
  from nd have ne: "parts ?k \<noteq> []" by (auto simp: node_at_def)
  from put_frame [OF pt] have "resolve fs' p = ?k" using resolve_cong [of fs' fs p] by simp
  with n ne show "read_file fs' p = Inr c"
    by (simp add: read_file_def node_at_def update_conv')
qed

lemma write_file_denied:
  "resolve fs p \<in> set (denied fs) \<Longrightarrow> \<exists>e. write_file fs p c = (Inl e, fs)"
  unfolding write_file_cases by (simp add: put_denied)

lemma makedirs_frame:
  "makedirs fs k = (r, fs') \<Longrightarrow> fs_nt fs' = fs_nt fs \<and> cwd fs' = cwd fs \<and> denied fs' = denied fs"
proof (induction fs k arbitrary: r fs' rule: makedirs.induct)
  case (1 fs k)
  show ?case
  proof (cases "parts k = []")
    case True
    with "1.prems" show ?thesis by (simp add: makedirs.simps [of fs k])
  next
    case False
    note ne = this
    show ?thesis
    proof (cases "map_of (nodes fs) k")
      case (Some n)
      with "1.prems" ne show ?thesis
        by (cases n) (auto simp: makedirs.simps [of fs k])
    next
      case None
      note nk = this
      show ?thesis
      proof (cases "node_at fs (parent k)")
        case (Some n)
        with "1.prems" ne nk show ?thesis
          by (cases n) (auto simp: makedirs.simps [of fs k] dest: put_frame)
      next
        case None
        obtain r1 fs1 where m: "makedirs fs (parent k) = (r1, fs1)" by (cases "makedirs fs (parent k)")
        from "1.IH" [OF ne nk None m]
        have f1: "fs_nt fs1 = fs_nt fs \<and> cwd fs1 = cwd fs \<and> denied fs1 = denied fs" .
        show ?thesis
        proof (cases r1)
          case (Inl e)
          with "1.prems" ne nk None m f1 show ?thesis
            by (simp add: makedirs.simps [of fs k])
        next
          case (Inr u)
          with "1.prems" ne nk None m have "put fs1 k Dir = (r, fs')"
            by (simp add: makedirs.simps [of fs k])
          from put_frame [OF this] f1 show ?thesis by simp
        qed
      qed
    qed
  qed
qed


lemma makedirs_existing:
  "node_at fs k = Some Dir \<Longrightarrow> makedirs fs k = (Inr (), fs)"
  by (simp add: makedirs.simps [of fs k] node_at_def split: if_splits)


lemma map_of_to_save: "map_of (to_save game) k = (if k = ''meta_path'' then None else map_of game k)"
  by (induction game) (auto simp: to_save_def)

lemma get_truthy_update: "k' \<noteq> k \<Longrightarrow> get_truthy (AList.update k' v d) k = get_truthy d k"
  by (simp add: get_truthy_def update_conv')

lemma map_of_setdefault: "map_of (setdefault k v d) k' = (if k' = k \<and> map_of d k = None then Some v else map_of d k')"
  by (auto simp: setdefault_def update_conv' split: option.splits)

lemma get_truthy_setdefault: "k' \<noteq> k \<Longrightarrow> get_truthy (setdefault k' v d) k = get_truthy d k"
  by (simp add: get_truthy_def map_of_setdefault)

lemma write_game_file_Inr:
  assumes "write_game_file fs game = (Inr (p, game'), fs')"
  obtains gid fs1 where "game_gid game = Inr gid"
    and "game_file_path (fs_nt fs) game gid = Inr p"
    and "mkdir_parents fs (parent p) = (Inr (), fs1)"
    and "write_file fs1 p (json_dumps (JObj (to_save game))) = (Inr (), fs')"
    and "game' = AList.update ''meta_path'' (JStr (path_str (fs_nt fs) p)) game"
proof (cases "game_gid game")
  case (Inl e)
  with assms show ?thesis by (simp add: write_game_file_def)
next
  case gid: (Inr gid)
  show ?thesis
  proof (cases "game_file_path (fs_nt fs) game gid")
    case (Inl e)
    with assms gid show ?thesis by (simp add: write_game_file_def)
  next
    case fp: (Inr q)
    obtain r1 fs1 where mk: "mkdir_parents fs (parent q) = (r1, fs1)"
      by (cases "mkdir_parents fs (parent q)")
    show ?thesis
    proof (cases r1)
      case (Inl e)
      with assms gid fp mk show ?thesis by (simp add: write_game_file_def)
    next
      case r1: (Inr u1)
      obtain r2 fs2 where wr: "write_file fs1 q (json_dumps (JObj (to_save game))) = (r2, fs2)"
        by (cases "write_file fs1 q (json_dumps (JObj (to_save game)))")
      show ?thesis
      proof (cases r2)
        case (Inl e)
        with assms gid fp mk r1 wr show ?thesis by (simp add: write_game_file_def)
      next
        case r2: (Inr u2)
        with assms gid fp mk r1 wr
        have "q = p" "fs2 = fs'"
          "game' = AList.update ''meta_path'' (JStr (path_str (fs_nt fs) p)) game"
          by (auto simp: write_game_file_def)
        with gid fp mk r1 wr r2 that show ?thesis by simp
      qed
    qed
  qed
qed

lemma mkdir_parents_frame:
  "mkdir_parents fs p = (r, fs') \<Longrightarrow> fs_nt fs' = fs_nt fs \<and> cwd fs' = cwd fs \<and> denied fs' = denied fs"
  unfolding mkdir_parents_def by (rule makedirs_frame)

lemma write_game_file_ok:
  assumes "write_game_file fs game = (Inr (p, game'), fs')"
  shows "read_file fs' p = Inr (Json (JObj (to_save game)))"
    and "game' = AList.update ''meta_path'' (JStr (path_str (fs_nt fs) p)) game"
    and "fs_nt fs' = fs_nt fs" and "cwd fs' = cwd fs"
proof -
  from assms obtain gid fs1 where
    mk: "mkdir_parents fs (parent p) = (Inr (), fs1)"
    and wr: "write_file fs1 p (json_dumps (JObj (to_save game))) = (Inr (), fs')"
    and g': "game' = AList.update ''meta_path'' (JStr (path_str (fs_nt fs) p)) game"
    by (rule write_game_file_Inr)
  from write_file_ok(1) [OF wr] show "read_file fs' p = Inr (Json (JObj (to_save game)))"
    by (simp add: json_dumps_def)
  from g' show "game' = AList.update ''meta_path'' (JStr (path_str (fs_nt fs) p)) game" .
  from mkdir_parents_frame [OF mk] write_file_frame [OF wr]
  show "fs_nt fs' = fs_nt fs" and "cwd fs' = cwd fs" by simp_all
qed

section \<open>Properties of the launch dispatcher\<close>

lemma launch_try_trace:
  "\<exists>a. snd (launch_try env game_path work_dir args tr) = tr @ [a] \<and>
       kind_of a = (if is_url game_path then Protocol
                    else if os_nt env \<and> is_windows_shortcut (Path (os_nt env) game_path) \<and> args = []
                         then ShellOpen else DirectExec)"
  by (cases "is_url game_path"; cases "os_nt env";
      cases "is_windows_shortcut (Path (os_nt env) game_path)"; cases "args = []")
     (auto simp: launch_try_def Let_def split: option.split)

lemma launch_game_snd:
  "snd (launch_game env game_path work_dir args tr) =
   snd (launch_try env game_path work_dir (case args of None \<Rightarrow> [] | Some a \<Rightarrow> a) tr)"
  by (simp add: launch_game_def Let_def split: prod.split sum.split)

lemma launch_game_fst:
  "fst (launch_game env game_path work_dir args tr) =
   (case fst (launch_try env game_path work_dir (case args of None \<Rightarrow> [] | Some a \<Rightarrow> a) tr) of
      Inl e \<Rightarrow> Inr (False, exn_str e) | Inr r \<Rightarrow> Inr r)"
  by (simp add: launch_game_def Let_def split: prod.split sum.split)

lemma is_url_steam: "is_url ''steam://run/123''"
  by (simp add: is_url_def url_prefixes_def startswith_def)

lemma not_url_game: "\<not> is_url ''game.lnk''" "\<not> is_url ''game.exe''" "\<not> is_url ''battlenet://x''"
  by (simp_all add: is_url_def url_prefixes_def startswith_def)

lemma path_game_lnk: "Path nt ''game.lnk'' = \<lparr>drive = [], root = False, parts = [''game.lnk'']\<rparr>"
  by (simp add: Path_def split_drive_def is_sep_def)

lemma path_game_exe: "Path nt ''game.exe'' = \<lparr>drive = [], root = False, parts = [''game.exe'']\<rparr>"
  by (simp add: Path_def split_drive_def is_sep_def)

lemma shortcut_game_lnk: "is_windows_shortcut \<lparr>drive = [], root = False, parts = [''game.lnk'']\<rparr>"
  by (simp add: is_windows_shortcut_def path_suffix_def path_name_def has_suffix_def name_ext_def lower_def lower_char_def)

lemma str_single: "path_str nt \<lparr>drive = [], root = False, parts = [c # cs]\<rparr> = c # cs"
  by (simp add: path_str_def)

lemma str_parent_single: "path_str nt (parent \<lparr>drive = [], root = False, parts = [w]\<rparr>) = ''.''"
  by (simp add: path_str_def parent_def)

text \<open>
  C8. Every launch makes exactly one call to the operating system, and the kind of that
  call is decided in the order URL/protocol, shell-opened shortcut, direct executable.
  \<^verbatim>\<open>steam://run/123\<close> is opened as a URL whatever the arguments are; \<^verbatim>\<open>game.lnk\<close>
  with no arguments is opened through the shell on Windows; \<^verbatim>\<open>game.exe\<close> with
  \<^verbatim>\<open>["--fast"]\<close> is spawned with that argument, in \<^verbatim>\<open>work_dir\<close> when one is
  given and in the parent of the target otherwise.
\<close>

theorem launch_game_classifies:
  "(\<exists>a. snd (launch_game env game_path work_dir args tr) = tr @ [a] \<and>
        kind_of a =
          (if is_url game_path then Protocol
           else if os_nt env \<and> is_windows_shortcut (Path (os_nt env) game_path)
                   \<and> (args = None \<or> args = Some [])
                then ShellOpen else DirectExec)) \<and>
   snd (launch_game env ''steam://run/123'' work_dir args tr) = tr @ [OpenURL ''steam://run/123''] \<and>
   (os_nt env \<longrightarrow>
      snd (launch_game env ''game.lnk'' work_dir (Some []) tr) = tr @ [StartFile ''game.lnk'']) \<and>
   snd (launch_game env ''game.exe'' work_dir (Some [''--fast'']) tr) =
     tr @ [Popen [''game.exe'', ''--fast'']
            (case work_dir of None \<Rightarrow> ''.'' | Some w \<Rightarrow> if w = [] then ''.'' else w)]"
proof (intro conjI)
  show "\<exists>a. snd (launch_game env game_path work_dir args tr) = tr @ [a] \<and>
        kind_of a =
          (if is_url game_path then Protocol
           else if os_nt env \<and> is_windows_shortcut (Path (os_nt env) game_path)
                   \<and> (args = None \<or> args = Some [])
                then ShellOpen else DirectExec)"
    using launch_try_trace [of env game_path work_dir "case args of None \<Rightarrow> [] | Some a \<Rightarrow> a" tr]
    by (cases args) (auto simp: launch_game_snd)
next
  show "snd (launch_game env ''steam://run/123'' work_dir args tr) = tr @ [OpenURL ''steam://run/123'']"
    by (simp add: launch_game_snd launch_try_def is_url_steam split: option.split)
next
  show "os_nt env \<longrightarrow>
      snd (launch_game env ''game.lnk'' work_dir (Some []) tr) = tr @ [StartFile ''game.lnk'']"
    by (simp add: launch_game_snd launch_try_def not_url_game path_game_lnk shortcut_game_lnk
        str_single Let_def split: option.split)
next
  show "snd (launch_game env ''game.exe'' work_dir (Some [''--fast'']) tr) =
     tr @ [Popen [''game.exe'', ''--fast'']
            (case work_dir of None \<Rightarrow> ''.'' | Some w \<Rightarrow> if w = [] then ''.'' else w)]"
    by (simp add: launch_game_snd launch_try_def not_url_game path_game_exe
        str_single str_parent_single Let_def split: option.split)
qed

theorem launch_game_classifies_witness:
  "os_nt win_env \<and>
   snd (launch_game win_env ''game.lnk'' None (Some []) []) = [StartFile ''game.lnk''] \<and>
   snd (launch_game win_env ''steam://run/123'' None (Some [''-x'']) []) = [OpenURL ''steam://run/123''] \<and>
   snd (launch_game win_env ''game.exe'' None (Some [''--fast'']) []) = [Popen [''game.exe'', ''--fast''] ''.'']"
  using launch_game_classifies [of win_env "''game.lnk''" None "Some []" "[]"]
    launch_game_classifies [of win_env "''game.lnk''" None "Some [''-x'']" "[]"]
    launch_game_classifies [of win_env "''game.lnk''" None "Some [''--fast'']" "[]"]
  by (simp add: win_env_def)

text \<open>
  C9. \<^verbatim>\<open>launch_game\<close> returns a pair of a success flag and a message on every input
  and never raises: whatever the \<^verbatim>\<open>try\<close> block raises comes back as
  \<^verbatim>\<open>(False, str(e))\<close>.
\<close>

theorem launch_game_never_raises:
  "(\<exists>ok msg. fst (launch_game env game_path work_dir args tr) = Inr (ok, msg)) \<and>
   (\<forall>e. fst (launch_try env game_path work_dir (case args of None \<Rightarrow> [] | Some a \<Rightarrow> a) tr) = Inl e
        \<longrightarrow> fst (launch_game env game_path work_dir args tr) = Inr (False, exn_str e))"
  by (cases "fst (launch_try env game_path work_dir (case args of None \<Rightarrow> [] | Some a \<Rightarrow> a) tr)")
     (auto simp: launch_game_fst)

theorem launch_game_never_raises_witness:
  "fst (launch_try win_env ''game.exe'' None [] []) = Inl (OSError ''The system cannot find the file specified'') \<and>
   fst (launch_game win_env ''game.exe'' None None []) = Inr (False, ''The system cannot find the file specified'')"
proof -
  have h: "fst (launch_try win_env ''game.exe'' None [] []) = Inl (OSError ''The system cannot find the file specified'')"
    by (simp add: launch_try_def not_url_game path_game_exe win_env_def str_single str_parent_single
       is_windows_shortcut_def path_suffix_def path_name_def has_suffix_def name_ext_def lower_def lower_char_def)
  from launch_game_never_raises [of win_env "''game.exe''" None None "[]"] h
  show ?thesis by simp
qed

text \<open>
  C10. The URL/protocol path is taken exactly when the target starts with one of
  \<^verbatim>\<open>http://\<close>, \<^verbatim>\<open>https://\<close>, \<^verbatim>\<open>steam://\<close>, \<^verbatim>\<open>epic://\<close>; another scheme such as
  \<^verbatim>\<open>battlenet://x\<close> is not opened as a URL.
\<close>

theorem launch_game_protocol_iff:
  "((\<exists>u. snd (launch_game env game_path work_dir args tr) = tr @ [OpenURL u]) \<longleftrightarrow>
      (startswith game_path ''http://'' \<or> startswith game_path ''https://'' \<or>
       startswith game_path ''steam://'' \<or> startswith game_path ''epic://'')) \<and>
   (\<forall>u. snd (launch_game env ''battlenet://x'' work_dir args tr) \<noteq> tr @ [OpenURL u])"
proof -
  have u: "is_url g = (startswith g ''http://'' \<or> startswith g ''https://'' \<or>
       startswith g ''steam://'' \<or> startswith g ''epic://'')" for g
    by (auto simp: is_url_def url_prefixes_def)
  have k: "(\<exists>u. snd (launch_game env g work_dir args tr) = tr @ [OpenURL u]) = is_url g" for g
    by (simp add: launch_game_snd launch_try_def Let_def split: option.split)
  show ?thesis using k [of game_path] k [of "''battlenet://x''"] u [of game_path] not_url_game(3)
    by simp
qed

theorem launch_game_protocol_iff_witness:
  "startswith ''epic://store'' ''epic://'' \<and>
   (\<exists>u. snd (launch_game win_env ''epic://store'' None None []) = [OpenURL u])"
  using launch_game_protocol_iff [of win_env "''epic://store''" None None "[]"]
  by (simp add: startswith_def)

section \<open>Properties of the catalog store\<close>

lemma read_try_object:
  assumes rd: "read_file fs p = Inr (Json (JObj data))"
    and d1: "d1 = (if map_of data ''id'' = None then AList.update ''id'' (JStr (path_stem p)) data else data)"
    and i: "map_of d1 ''id'' = Some i"
    and dw: "derive_work_dir fs (setdefault ''name'' i d1) = Inr d3"
  shows "read_try fs p = Inr (AList.update ''meta_path'' (JStr (path_str (fs_nt fs) p)) d3)"
proof -
  have "read_try fs p =
     (case map_of d1 ''id'' of
        None \<Rightarrow> Inl (KeyError ''id'')
      | Some i \<Rightarrow>
          (case derive_work_dir fs (setdefault ''name'' i d1) of
             Inl e \<Rightarrow> Inl e
           | Inr d3 \<Rightarrow> Inr (AList.update ''meta_path'' (JStr (path_str (fs_nt fs) p)) d3)))"
    unfolding read_try_def d1 by (simp add: rd Let_def)
  then show ?thesis by (simp add: i dw)
qed

lemma keys_to_save: "fst ` set (to_save game) \<subseteq> fst ` set game"
  by (auto simp: to_save_def)

lemma keys_setdefault: "fst ` set (setdefault k v d) \<subseteq> insert k (fst ` set d)"
  by (cases "map_of d k") (auto simp: setdefault_def AList.dom_update)

lemma map_of_present: "k \<in> fst ` set d \<Longrightarrow> \<exists>v. map_of d k = Some v"
  by (induction d) auto

lemma subset_chain3:
  "A \<subseteq> insert x B \<Longrightarrow> B \<subseteq> insert y C \<Longrightarrow> C \<subseteq> insert z D \<Longrightarrow> D \<subseteq> E
     \<Longrightarrow> A \<subseteq> E \<union> {z, y, x}"
  by blast

text \<open>
  C3 (amended). When \<^verbatim>\<open>_write_game_file\<close> succeeds on a record whose \<^verbatim>\<open>work_dir\<close>
  is truthy, \<^verbatim>\<open>_read_game_file\<close> on the written file returns a record, logs
  nothing, and gives every field of the saved record other than \<^verbatim>\<open>meta_path\<close> its
  saved value; the only fields it can add are \<^verbatim>\<open>id\<close>, \<^verbatim>\<open>name\<close> and
  \<^verbatim>\<open>meta_path\<close>, the last being the path written.
\<close>

theorem save_load_roundtrip:
  assumes w: "write_game_file fs game = (Inr (p, game'), fs')"
    and wd: "get_truthy game ''work_dir''"
  shows "\<exists>loaded. read_game_file fs' p = (loaded, []) \<and>
           (\<forall>k. k \<noteq> ''meta_path'' \<and> k \<in> fst ` set game \<longrightarrow> map_of loaded k = map_of game k) \<and>
           fst ` set loaded \<subseteq> fst ` set game \<union> {''id'', ''name'', ''meta_path''} \<and>
           map_of loaded ''meta_path'' = Some (JStr (path_str (fs_nt fs) p))"
proof -
  define data where "data = to_save game"
  define d1 where
    "d1 = (if map_of data ''id'' = None then AList.update ''id'' (JStr (path_stem p)) data else data)"
  from write_game_file_ok [OF w]
  have rd: "read_file fs' p = Inr (Json (JObj data))" and nt: "fs_nt fs' = fs_nt fs"
    by (simp_all add: data_def)
  obtain i where i: "map_of d1 ''id'' = Some i"
    by (cases "map_of data ''id''") (auto simp: d1_def update_conv')
  define d2 where "d2 = setdefault ''name'' i d1"
  have m1: "map_of d1 k = Some v" if "map_of data k = Some v" for k v
    using that by (auto simp: d1_def update_conv')
  have m2: "map_of d2 k = Some v" if "map_of d1 k = Some v" for k v
    using that by (auto simp: d2_def map_of_setdefault)
  from wd obtain v where v: "map_of game ''work_dir'' = Some v" "truthy v"
    by (auto simp: get_truthy_def py_or_def split: option.splits if_splits)
  then have "map_of data ''work_dir'' = Some v" by (simp add: data_def map_of_to_save)
  then have "map_of d2 ''work_dir'' = Some v" by (intro m2 m1)
  with v(2) have "get_truthy d2 ''work_dir''" by (simp add: get_truthy_def py_or_def)
  then have dw: "derive_work_dir fs' (setdefault ''name'' i d1) = Inr d2"
    by (simp add: derive_work_dir_def d2_def)
  define loaded where "loaded = AList.update ''meta_path'' (JStr (path_str (fs_nt fs) p)) d2"
  have "read_try fs' p = Inr loaded"
    using read_try_object [OF rd d1_def i dw] by (simp add: loaded_def nt)
  then have r: "read_game_file fs' p = (loaded, [])" by (simp add: read_game_file_def)
  have keep: "map_of loaded k = map_of game k" if "k \<noteq> ''meta_path''" "k \<in> fst ` set game" for k
  proof -
    from map_of_present [OF that(2)] obtain x where x: "map_of game k = Some x" by blast
    with that(1) have "map_of data k = Some x" by (simp add: data_def map_of_to_save)
    then have "map_of d2 k = Some x" by (intro m2 m1)
    with that(1) x show ?thesis by (simp add: loaded_def update_conv')
  qed
  have a: "fst ` set data \<subseteq> fst ` set game" unfolding data_def by (rule keys_to_save)
  have b: "fst ` set d1 \<subseteq> insert ''id'' (fst ` set data)"
    by (auto simp: d1_def AList.dom_update)
  have c: "fst ` set d2 \<subseteq> insert ''name'' (fst ` set d1)"
    unfolding d2_def by (rule keys_setdefault)
  have d: "fst ` set loaded \<subseteq> insert ''meta_path'' (fst ` set d2)"
    by (auto simp: loaded_def AList.dom_update)
  have keys: "fst ` set loaded \<subseteq> fst ` set game \<union> {''id'', ''name'', ''meta_path''}"
    by (rule subset_chain3 [OF d c b a])
  have mp: "map_of loaded ''meta_path'' = Some (JStr (path_str (fs_nt fs) p))"
    by (simp add: loaded_def update_conv')
  show ?thesis
  proof (rule exI [of _ loaded], intro conjI allI impI)
    show "read_game_file fs' p = (loaded, [])" by (rule r)
    show "map_of loaded k = map_of game k" if "k \<noteq> ''meta_path'' \<and> k \<in> fst ` set game" for k
      using that keep by simp
    show "fst ` set loaded \<subseteq> fst ` set game \<union> {''id'', ''name'', ''meta_path''}" by (rule keys)
    show "map_of loaded ''meta_path'' = Some (JStr (path_str (fs_nt fs) p))" by (rule mp)
  qed
qed

theorem save_load_roundtrip_witness:
  "get_truthy game_doom ''work_dir'' \<and>
   fst (write_game_file posix_fs game_doom) =
     Inr (Path False ''games/doom_ii.json'',
          AList.update ''meta_path'' (JStr ''games/doom_ii.json'') game_doom) \<and>
   (\<exists>loaded. read_game_file (snd (write_game_file posix_fs game_doom))
                (Path False ''games/doom_ii.json'') = (loaded, []) \<and>
      (\<forall>k. k \<noteq> ''meta_path'' \<and> k \<in> fst ` set game_doom \<longrightarrow> map_of loaded k = map_of game_doom k) \<and>
      fst ` set loaded \<subseteq> fst ` set game_doom \<union> {''id'', ''name'', ''meta_path''} \<and>
      map_of loaded ''meta_path'' = Some (JStr (path_str (fs_nt posix_fs) (Path False ''games/doom_ii.json''))))"
proof -
  have t: "get_truthy game_doom ''work_dir''" by code_simp
  have f: "fst (write_game_file posix_fs game_doom) =
     Inr (Path False ''games/doom_ii.json'',
          AList.update ''meta_path'' (JStr ''games/doom_ii.json'') game_doom)" by code_simp
  then have w: "write_game_file posix_fs game_doom =
     (Inr (Path False ''games/doom_ii.json'',
          AList.update ''meta_path'' (JStr ''games/doom_ii.json'') game_doom),
      snd (write_game_file posix_fs game_doom))"
    by (metis prod.collapse)
  from save_load_roundtrip [OF w t] t f show ?thesis by simp
qed

text \<open>
  The round trip as the specification words it fails on a record whose
  \<^verbatim>\<open>work_dir\<close> is the empty string: the loader replaces it by the working directory.
\<close>

theorem save_load_roundtrip_counterexample:
  "fst (write_game_file posix_fs game_empty_wd) =
     Inr (Path False ''games/g.json'',
          AList.update ''meta_path'' (JStr ''games/g.json'') game_empty_wd) \<and>
   map_of (fst (read_game_file (snd (write_game_file posix_fs game_empty_wd))
                  (Path False ''games/g.json''))) ''work_dir'' = Some (JStr ''/home/user'') \<and>
   map_of game_empty_wd ''work_dir'' = Some (JStr [])"
  by code_simp

lemma derive_work_dir_ok:
  assumes "well_formed_record d"
  shows "\<exists>d3. derive_work_dir fs d = Inr d3"
proof (cases "get_truthy d ''work_dir''")
  case True
  then show ?thesis by (simp add: derive_work_dir_def)
next
  case False
  with assms have g: "py_or (map_of d ''game_path'') True is_str" by (simp add: well_formed_record_def)
  show ?thesis
  proof (cases "map_of d ''game_path''")
    case None
    with False show ?thesis by (simp add: derive_work_dir_def py_or_def)
  next
    case (Some v)
    show ?thesis
    proof (cases "truthy v")
      case f: False
      with False Some show ?thesis by (simp add: derive_work_dir_def py_or_def)
    next
      case t: True
      with g Some have "is_str v" by (simp add: py_or_def)
      then obtain s where "v = JStr s" by (cases v) simp_all
      with False Some t show ?thesis by (simp add: derive_work_dir_def py_or_def)
    qed
  qed
qed

lemma derive_work_dir_bad:
  assumes "\<not> well_formed_record d"
  shows "\<exists>e. derive_work_dir fs d = Inl e"
proof -
  from assms have f: "\<not> get_truthy d ''work_dir''"
    and g: "\<not> py_or (map_of d ''game_path'') True is_str"
    by (simp_all add: well_formed_record_def)
  from g obtain v where v: "map_of d ''game_path'' = Some v" "truthy v" "\<not> is_str v"
    by (cases "map_of d ''game_path''") (auto simp: py_or_def split: if_splits)
  from v(3) have "(case v of JStr s \<Rightarrow> Inr (Some (Path (fs_nt fs) s))
                   | _ \<Rightarrow> Inl (TypeError ''expected str, bytes or os.PathLike object''))
                  = (Inl (TypeError ''expected str, bytes or os.PathLike object'') :: exn + ppath option)"
    by (cases v) simp_all
  with f v show ?thesis by (simp add: derive_work_dir_def py_or_def)
qed

lemma well_formed_update:
  "k \<noteq> ''work_dir'' \<Longrightarrow> k \<noteq> ''game_path'' \<Longrightarrow>
     well_formed_record (AList.update k v d) = well_formed_record d"
  by (simp add: well_formed_record_def get_truthy_def update_conv')

lemma well_formed_setdefault:
  "k \<noteq> ''work_dir'' \<Longrightarrow> k \<noteq> ''game_path'' \<Longrightarrow>
     well_formed_record (setdefault k v d) = well_formed_record d"
  by (cases "map_of d k") (simp_all add: setdefault_def well_formed_update)

lemma read_try_dict:
  assumes rd: "read_file fs p = Inr (Json (JObj data))"
  shows "(well_formed_record data \<longrightarrow> (\<exists>d. read_try fs p = Inr d \<and> d \<noteq> [])) \<and>
         (\<not> well_formed_record data \<longrightarrow> (\<exists>e. read_try fs p = Inl e))"
proof -
  define d1 where
    "d1 = (if map_of data ''id'' = None then AList.update ''id'' (JStr (path_stem p)) data else data)"
  obtain i where i: "map_of d1 ''id'' = Some i"
    by (cases "map_of data ''id''") (auto simp: d1_def update_conv')
  define d2 where "d2 = setdefault ''name'' i d1"
  have w1: "well_formed_record d1 = well_formed_record data"
    by (simp add: d1_def well_formed_update)
  have w2: "well_formed_record d2 = well_formed_record data"
    by (simp add: d2_def well_formed_setdefault w1)
  have rt: "read_try fs p =
     (case derive_work_dir fs d2 of
        Inl e \<Rightarrow> Inl e
      | Inr d3 \<Rightarrow> Inr (AList.update ''meta_path'' (JStr (path_str (fs_nt fs) p)) d3))"
    using i unfolding read_try_def d1_def d2_def by (simp add: rd Let_def)
  show ?thesis
  proof (intro conjI impI)
    assume "well_formed_record data"
    with w2 derive_work_dir_ok [of d2 fs] obtain d3 where "derive_work_dir fs d2 = Inr d3" by auto
    with rt have "read_try fs p = Inr (AList.update ''meta_path'' (JStr (path_str (fs_nt fs) p)) d3)"
      by simp
    moreover have "AList.update ''meta_path'' (JStr (path_str (fs_nt fs) p)) d3 \<noteq> []"
      by (cases d3) simp_all
    ultimately show "\<exists>d. read_try fs p = Inr d \<and> d \<noteq> []" by blast
  next
    assume "\<not> well_formed_record data"
    with w2 derive_work_dir_bad [of d2 fs] obtain e where "derive_work_dir fs d2 = Inl e" by auto
    with rt show "\<exists>e. read_try fs p = Inl e" by simp
  qed
qed

lemma read_try_invalid:
  assumes "\<not> valid_game_file fs p"
  shows "\<exists>e. read_try fs p = Inl e"
proof (cases "read_file fs p")
  case (Inl e)
  then show ?thesis by (simp add: read_try_def)
next
  case (Inr t)
  show ?thesis
  proof (cases t)
    case (NotJson s)
    with Inr show ?thesis by (simp add: read_try_def)
  next
    case (Json v)
    show ?thesis
    proof (cases "\<exists>data. v = JObj data")
      case True
      then obtain data where "v = JObj data" by blast
      with Inr Json assms read_try_dict [of fs p data] show ?thesis
        by (simp add: valid_game_file_def)
    next
      case False
      with Inr Json show ?thesis by (cases v) (simp_all add: read_try_def)
    qed
  qed
qed

lemma read_try_valid:
  assumes "valid_game_file fs p"
  shows "\<exists>d. read_try fs p = Inr d \<and> d \<noteq> []"
proof -
  from assms obtain data where "read_file fs p = Inr (Json (JObj data))" "well_formed_record data"
    by (auto simp: valid_game_file_def split: sum.splits ftext.splits json.splits)
  with read_try_dict [of fs p data] show ?thesis by simp
qed

lemma read_game_file_valid:
  "valid_game_file fs p \<Longrightarrow> fst (read_game_file fs p) \<noteq> [] \<and> snd (read_game_file fs p) = []"
  using read_try_valid [of fs p] by (auto simp: read_game_file_def)

lemma read_game_file_invalid:
  "\<not> valid_game_file fs p \<Longrightarrow>
     fst (read_game_file fs p) = [] \<and> (\<exists>e. snd (read_game_file fs p) = [SkipBad (path_name p) e])"
  using read_try_invalid [of fs p] by (auto simp: read_game_file_def)

lemma load_loop_eq:
  "load_loop fs ps games lg =
     (games @ map (\<lambda>p. fst (read_game_file fs p)) (filter (valid_game_file fs) ps),
      lg @ concat (map (\<lambda>p. snd (read_game_file fs p)) ps))"
proof (induction ps arbitrary: games lg)
  case Nil
  show ?case by simp
next
  case (Cons p ps)
  obtain g w where r: "read_game_file fs p = (g, w)" by (cases "read_game_file fs p")
  show ?case
  proof (cases "valid_game_file fs p")
    case True
    with read_game_file_valid [of fs p] r have "g \<noteq> []" by simp
    with True r Cons.IH show ?thesis by simp
  next
    case False
    with read_game_file_invalid [of fs p] r have "g = []" by simp
    with False r Cons.IH show ?thesis by simp
  qed
qed

lemma length_skip_log:
  "length (concat (map (\<lambda>p. snd (read_game_file fs p)) ps)) =
     length (filter (\<lambda>p. \<not> valid_game_file fs p) ps)"
proof (induction ps)
  case Nil
  show ?case by simp
next
  case (Cons p ps)
  show ?case
  proof (cases "valid_game_file fs p")
    case True
    with read_game_file_valid [of fs p] Cons show ?thesis by simp
  next
    case False
    with read_game_file_invalid [of fs p] Cons show ?thesis by auto
  qed
qed

lemma mkdir_exist_ok_existing:
  "node_at fs (resolve fs p) = Some Dir \<Longrightarrow> mkdir_exist_ok fs p = (Inr (), fs)"
  by (simp add: mkdir_exist_ok_def)

lemma GAMES_DIR_eq: "GAMES_DIR nt = \<lparr>drive = [], root = False, parts = [''games'']\<rparr>"
  by (cases nt) (simp_all add: GAMES_DIR_def Path_def split_drive_def is_sep_def)

lemma sample_path_eq:
  "sample_path nt = \<lparr>drive = [], root = False, parts = [''games'', ''sample.json'']\<rparr>"
  by (cases nt) (simp_all add: sample_path_def GAMES_DIR_eq joinpath_def Path_def split_drive_def is_sep_def)

lemma collapse_snoc: "w \<noteq> ''..'' \<Longrightarrow> collapse (ws @ [w]) = collapse ws @ [w]"
  by (simp add: collapse_def)

lemma resolve_child:
  assumes "w \<noteq> ''..''"
  shows "resolve fs (q\<lparr>parts := parts q @ [w]\<rparr>) =
         (resolve fs q)\<lparr>parts := parts (resolve fs q) @ [w]\<rparr>"
  using assms collapse_snoc [of w "parts (cwd fs) @ parts q"]
  by (simp add: resolve_def is_absolute_def joinpath_def collapse_snoc Let_def)

lemma parent_child: "parent (k\<lparr>parts := parts k @ [w]\<rparr>) = k"
  by (simp add: parent_def)

lemma resolve_sample_path:
  "resolve fs (sample_path nt) =
     (resolve fs (GAMES_DIR nt))\<lparr>parts := parts (resolve fs (GAMES_DIR nt)) @ [''sample.json'']\<rparr>"
proof -
  have "sample_path nt = (GAMES_DIR nt)\<lparr>parts := parts (GAMES_DIR nt) @ [''sample.json'']\<rparr>"
    by (simp add: sample_path_eq GAMES_DIR_eq)
  then show ?thesis by (simp add: resolve_child)
qed

lemma sample_seed:
  "AList.update ''name'' (JStr ''Sample Game'')
     (AList.update ''id'' (JStr ''sample'') (SCHEMA_DEFAULT fs)) = SCHEMA_DEFAULT fs"
  by (simp add: SCHEMA_DEFAULT_def Let_def)

lemma sample_gid: "game_gid (SCHEMA_DEFAULT fs) = Inr ''sample''"
  by (simp add: game_gid_def SCHEMA_DEFAULT_def Let_def py_or_def lower_def lower_char_def
      replace_char_def)

lemma sample_file_path:
  "game_file_path nt (SCHEMA_DEFAULT fs) ''sample'' = Inr (sample_path nt)"
  by (simp add: game_file_path_def SCHEMA_DEFAULT_def Let_def py_or_def sample_path_def)

lemma sample_to_save: "to_save (SCHEMA_DEFAULT fs) = SCHEMA_DEFAULT fs"
  by (simp add: to_save_def SCHEMA_DEFAULT_def Let_def)

lemma sample_meta:
  "AList.update ''meta_path'' v (SCHEMA_DEFAULT fs) = SCHEMA_DEFAULT fs @ [(''meta_path'', v)]"
  by (simp add: SCHEMA_DEFAULT_def Let_def)

lemma write_sample:
  assumes dir: "node_at fs (resolve fs (GAMES_DIR (fs_nt fs))) = Some Dir"
    and free: "resolve fs (sample_path (fs_nt fs)) \<notin> set (denied fs)"
    and nodir: "node_at fs (resolve fs (sample_path (fs_nt fs))) \<noteq> Some Dir"
  shows "write_game_file fs (SCHEMA_DEFAULT fs) =
     (Inr (sample_path (fs_nt fs),
           SCHEMA_DEFAULT fs @
             [(''meta_path'', JStr (path_str (fs_nt fs) (sample_path (fs_nt fs))))]),
      fs\<lparr>nodes := AList.update (resolve fs (sample_path (fs_nt fs)))
                       (File (Json (JObj (SCHEMA_DEFAULT fs)))) (nodes fs)\<rparr>)"
proof -
  let ?p = "sample_path (fs_nt fs)"
  have par: "parent ?p = GAMES_DIR (fs_nt fs)" by (simp add: sample_path_eq GAMES_DIR_eq parent_def)
  have mk: "mkdir_parents fs (parent ?p) = (Inr (), fs)"
    unfolding par mkdir_parents_def by (rule makedirs_existing [OF dir])
  have pk: "parent (resolve fs ?p) = resolve fs (GAMES_DIR (fs_nt fs))"
    by (simp add: resolve_sample_path parent_child)
  have wr: "write_file fs ?p (json_dumps (JObj (SCHEMA_DEFAULT fs))) =
      (Inr (), fs\<lparr>nodes := AList.update (resolve fs ?p)
                       (File (Json (JObj (SCHEMA_DEFAULT fs)))) (nodes fs)\<rparr>)"
    unfolding write_file_cases using nodir dir free
    by (simp add: pk put_allowed json_dumps_def)
  show ?thesis
    by (simp add: write_game_file_def sample_gid sample_file_path mk wr sample_to_save sample_meta)
qed

text \<open>
  C6. In a catalog directory whose \<^verbatim>\<open>.json\<close> entries hold N files that make a
  record and M that do not, with N positive, \<^verbatim>\<open>load_games\<close> does not raise, changes
  nothing on disk, returns exactly the N records in the order of the file names, and
  logs one warning for each of the M other files.
\<close>

theorem load_games_skips_invalid:
  assumes dir: "node_at fs (resolve fs (GAMES_DIR (fs_nt fs))) = Some Dir"
    and ps: "ps = glob_json fs (GAMES_DIR (fs_nt fs))"
    and some: "filter (valid_game_file fs) ps \<noteq> []"
  shows "\<exists>games lg. load_games fs = (Inr games, fs, lg) \<and>
           games = map (\<lambda>p. fst (read_game_file fs p)) (filter (valid_game_file fs) ps) \<and>
           length games = length (filter (valid_game_file fs) ps) \<and>
           length lg = length (filter (\<lambda>p. \<not> valid_game_file fs p) ps)"
proof -
  let ?games = "map (\<lambda>p. fst (read_game_file fs p)) (filter (valid_game_file fs) ps)"
  let ?lg = "concat (map (\<lambda>p. snd (read_game_file fs p)) ps)"
  have loop: "load_loop fs ps [] [] = (?games, ?lg)" by (simp add: load_loop_eq)
  from some have ne: "?games \<noteq> []" by simp
  have "load_games fs = (Inr ?games, fs, ?lg)"
    using ne by (simp add: load_games_def mkdir_exist_ok_existing [OF dir] ps [symmetric] loop)
  then show ?thesis by (simp add: length_skip_log)
qed

theorem load_games_skips_invalid_witness:
  "node_at catalog_fs (resolve catalog_fs (GAMES_DIR (fs_nt catalog_fs))) = Some Dir \<and>
   filter (valid_game_file catalog_fs) (glob_json catalog_fs (GAMES_DIR (fs_nt catalog_fs))) \<noteq> [] \<and>
   (\<exists>games lg. load_games catalog_fs = (Inr games, catalog_fs, lg) \<and>
      games = map (\<lambda>p. fst (read_game_file catalog_fs p))
                (filter (valid_game_file catalog_fs)
                   (glob_json catalog_fs (GAMES_DIR (fs_nt catalog_fs)))) \<and>
      length games = 2 \<and> length lg = 2)"
proof -
  have dir: "node_at catalog_fs (resolve catalog_fs (GAMES_DIR (fs_nt catalog_fs))) = Some Dir"
    by code_simp
  have n: "length (filter (valid_game_file catalog_fs)
             (glob_json catalog_fs (GAMES_DIR (fs_nt catalog_fs)))) = 2"
    by code_simp
  have m: "length (filter (\<lambda>p. \<not> valid_game_file catalog_fs p)
             (glob_json catalog_fs (GAMES_DIR (fs_nt catalog_fs)))) = 2"
    by code_simp
  from n have some: "filter (valid_game_file catalog_fs)
             (glob_json catalog_fs (GAMES_DIR (fs_nt catalog_fs))) \<noteq> []"
    by (metis length_0_conv zero_neq_numeral)
  from load_games_skips_invalid [OF dir refl some] dir some show ?thesis
    by (simp add: n m)
qed

text \<open>
  C7. In a catalog directory that yields no record, and where the file
  \<^verbatim>\<open>games/sample.json\<close> can be written, \<^verbatim>\<open>load_games\<close> returns exactly one record,
  the default one with its \<^verbatim>\<open>meta_path\<close>, and that record is then the content of
  \<^verbatim>\<open>sample.json\<close> in the catalog directory.
\<close>

theorem load_games_seeds_placeholder:
  assumes dir: "node_at fs (resolve fs (GAMES_DIR (fs_nt fs))) = Some Dir"
    and none: "filter (valid_game_file fs) (glob_json fs (GAMES_DIR (fs_nt fs))) = []"
    and free: "resolve fs (sample_path (fs_nt fs)) \<notin> set (denied fs)"
    and nodir: "node_at fs (resolve fs (sample_path (fs_nt fs))) \<noteq> Some Dir"
  shows "\<exists>fs' lg. load_games fs =
           (Inr [SCHEMA_DEFAULT fs @
                   [(''meta_path'', JStr (path_str (fs_nt fs) (sample_path (fs_nt fs))))]],
            fs', lg) \<and>
           read_file fs' (sample_path (fs_nt fs)) = Inr (Json (JObj (SCHEMA_DEFAULT fs))) \<and>
           parent (sample_path (fs_nt fs)) = GAMES_DIR (fs_nt fs)"
proof -
  let ?ps = "glob_json fs (GAMES_DIR (fs_nt fs))"
  let ?lg = "concat (map (\<lambda>p. snd (read_game_file fs p)) ?ps)"
  let ?fs' = "fs\<lparr>nodes := AList.update (resolve fs (sample_path (fs_nt fs)))
                       (File (Json (JObj (SCHEMA_DEFAULT fs)))) (nodes fs)\<rparr>"
  let ?rec = "SCHEMA_DEFAULT fs @
                   [(''meta_path'', JStr (path_str (fs_nt fs) (sample_path (fs_nt fs))))]"
  have loop: "load_loop fs ?ps [] [] = ([], ?lg)" by (simp add: load_loop_eq none)
  have lg: "load_games fs = (Inr [?rec], ?fs', ?lg)"
    by (simp add: load_games_def mkdir_exist_ok_existing [OF dir] loop sample_seed
        write_sample [OF dir free nodir])
  from nodir have ne: "parts (resolve fs (sample_path (fs_nt fs))) \<noteq> []"
    by (auto simp: node_at_def)
  have "resolve ?fs' (sample_path (fs_nt fs)) = resolve fs (sample_path (fs_nt fs))"
    using resolve_cong [of ?fs' fs] by simp
  with ne have rd: "read_file ?fs' (sample_path (fs_nt fs)) = Inr (Json (JObj (SCHEMA_DEFAULT fs)))"
    by (simp add: read_file_def node_at_def update_conv')
  have par: "parent (sample_path (fs_nt fs)) = GAMES_DIR (fs_nt fs)"
    by (simp add: sample_path_eq GAMES_DIR_eq parent_def)
  from lg rd par show ?thesis by blast
qed

theorem load_games_seeds_placeholder_witness:
  "node_at empty_catalog_fs (resolve empty_catalog_fs (GAMES_DIR (fs_nt empty_catalog_fs))) = Some Dir \<and>
   filter (valid_game_file empty_catalog_fs)
     (glob_json empty_catalog_fs (GAMES_DIR (fs_nt empty_catalog_fs))) = [] \<and>
   resolve empty_catalog_fs (sample_path (fs_nt empty_catalog_fs)) \<notin> set (denied empty_catalog_fs) \<and>
   node_at empty_catalog_fs (resolve empty_catalog_fs (sample_path (fs_nt empty_catalog_fs))) \<noteq> Some Dir \<and>
   (\<exists>fs' lg. load_games empty_catalog_fs =
           (Inr [SCHEMA_DEFAULT empty_catalog_fs @
                   [(''meta_path'', JStr (path_str (fs_nt empty_catalog_fs)
                                           (sample_path (fs_nt empty_catalog_fs))))]],
            fs', lg) \<and>
           read_file fs' (sample_path (fs_nt empty_catalog_fs)) =
             Inr (Json (JObj (SCHEMA_DEFAULT empty_catalog_fs))) \<and>
           parent (sample_path (fs_nt empty_catalog_fs)) = GAMES_DIR (fs_nt empty_catalog_fs))"
proof -
  have dir: "node_at empty_catalog_fs
      (resolve empty_catalog_fs (GAMES_DIR (fs_nt empty_catalog_fs))) = Some Dir"
    by code_simp
  have none: "filter (valid_game_file empty_catalog_fs)
     (glob_json empty_catalog_fs (GAMES_DIR (fs_nt empty_catalog_fs))) = []"
    by code_simp
  have free: "resolve empty_catalog_fs (sample_path (fs_nt empty_catalog_fs))
      \<notin> set (denied empty_catalog_fs)"
    by code_simp
  have nodir: "node_at empty_catalog_fs
      (resolve empty_catalog_fs (sample_path (fs_nt empty_catalog_fs))) \<noteq> Some Dir"
    by code_simp
  from load_games_seeds_placeholder [OF dir none free nodir] dir none free nodir
  show ?thesis by simp
qed

lemma write_game_file_denied:
  assumes gid: "game_gid g = Inr gid"
    and fp: "game_file_path (fs_nt fs) g gid = Inr p"
    and den: "resolve fs p \<in> set (denied fs)"
  shows "\<exists>e. fst (write_game_file fs g) = Inl e"
proof -
  obtain r1 fs1 where mk: "mkdir_parents fs (parent p) = (r1, fs1)"
    by (cases "mkdir_parents fs (parent p)")
  show ?thesis
  proof (cases r1)
    case (Inl e)
    with gid fp mk show ?thesis by (simp add: write_game_file_def)
  next
    case (Inr u)
    from mkdir_parents_frame [OF mk]
    have fr: "fs_nt fs1 = fs_nt fs" "cwd fs1 = cwd fs" "denied fs1 = denied fs" by simp_all
    then have "resolve fs1 p = resolve fs p" using resolve_cong [of fs1 fs p] by simp
    with den fr have "resolve fs1 p \<in> set (denied fs1)" by simp
    from write_file_denied [OF this, of "json_dumps (JObj (to_save g))"]
    obtain e where "write_file fs1 p (json_dumps (JObj (to_save g))) = (Inl e, fs1)" by blast
    with gid fp mk Inr show ?thesis by (simp add: write_game_file_def)
  qed
qed

lemma write_game_file_total:
  "(\<exists>e. fst (write_game_file fs g) = Inl e) \<or>
   (\<exists>p g'. fst (write_game_file fs g) = Inr (p, g') \<and>
      read_file (snd (write_game_file fs g)) p = Inr (Json (JObj (to_save g))))"
proof (cases "fst (write_game_file fs g)")
  case (Inl e)
  then show ?thesis by simp
next
  case (Inr r)
  obtain p g' where r: "r = (p, g')" by (cases r)
  with Inr have "write_game_file fs g = (Inr (p, g'), snd (write_game_file fs g))"
    by (metis prod.collapse)
  from write_game_file_ok(1) [OF this] Inr r show ?thesis by simp
qed

lemma save_loop_failed:
  assumes "fst (write_game_file fs g) = Inl e"
  shows "save_loop fs (g # gs) =
     (case save_loop (snd (write_game_file fs g)) gs of
        (fs2, gs', lg) \<Rightarrow>
          (fs2, g # gs',
           SaveFailed (case map_of g ''id'' of None \<Rightarrow> JStr ''(no id)'' | Some i \<Rightarrow> i) e # lg))"
proof -
  obtain r fs1 where w: "write_game_file fs g = (r, fs1)" by (cases "write_game_file fs g")
  with assms have "r = Inl e" by simp
  with w show ?thesis by simp
qed

text \<open>
  C2 (amended). \<^verbatim>\<open>_write_game_file\<close> either raises or has written the whole record:
  when it returns, the file holds every field but \<^verbatim>\<open>meta_path\<close>, and when the storage
  refuses the write of the record file it raises. \<^verbatim>\<open>save_games\<close> never raises: a
  record whose write raises is logged as an error with its id, stays as it was, and the
  loop goes on with the remaining records.
\<close>

theorem save_failure_handling:
  "((\<exists>e. fst (write_game_file fs g) = Inl e) \<or>
    (\<exists>p g'. fst (write_game_file fs g) = Inr (p, g') \<and>
       read_file (snd (write_game_file fs g)) p = Inr (Json (JObj (to_save g))))) \<and>
   (game_gid g = Inr gid \<and> game_file_path (fs_nt fs) g gid = Inr q \<and>
      resolve fs q \<in> set (denied fs) \<longrightarrow> (\<exists>e. fst (write_game_file fs g) = Inl e)) \<and>
   fst (save_games fs games) = Inr () \<and>
   (fst (write_game_file fs g) = Inl x \<longrightarrow>
      snd (save_games fs (g # gs)) =
        (case save_loop (snd (write_game_file fs g)) gs of
           (fs2, gs', lg) \<Rightarrow>
             (fs2, g # gs',
              SaveFailed (case map_of g ''id'' of None \<Rightarrow> JStr ''(no id)'' | Some i \<Rightarrow> i) x # lg)))"
proof (intro conjI impI)
  show "(\<exists>e. fst (write_game_file fs g) = Inl e) \<or>
    (\<exists>p g'. fst (write_game_file fs g) = Inr (p, g') \<and>
       read_file (snd (write_game_file fs g)) p = Inr (Json (JObj (to_save g))))"
    by (rule write_game_file_total)
next
  assume "game_gid g = Inr gid \<and> game_file_path (fs_nt fs) g gid = Inr q \<and>
      resolve fs q \<in> set (denied fs)"
  then show "\<exists>e. fst (write_game_file fs g) = Inl e"
    using write_game_file_denied [of g gid fs q] by simp
next
  show "fst (save_games fs games) = Inr ()" by (simp add: save_games_def)
next
  assume "fst (write_game_file fs g) = Inl x"
  from save_loop_failed [OF this, of gs]
  show "snd (save_games fs (g # gs)) =
        (case save_loop (snd (write_game_file fs g)) gs of
           (fs2, gs', lg) \<Rightarrow>
             (fs2, g # gs',
              SaveFailed (case map_of g ''id'' of None \<Rightarrow> JStr ''(no id)'' | Some i \<Rightarrow> i) x # lg))"
    by (simp add: save_games_def)
qed

theorem save_failure_handling_witness:
  "game_gid game_doom = Inr ''doom_ii'' \<and>
   game_file_path (fs_nt readonly_fs) game_doom ''doom_ii'' = Inr (Path False ''games/doom_ii.json'') \<and>
   resolve readonly_fs (Path False ''games/doom_ii.json'') \<in> set (denied readonly_fs) \<and>
   fst (write_game_file readonly_fs game_doom) = Inl (OSError ''Permission denied'') \<and>
   fst (save_games readonly_fs [game_doom, game_empty_wd]) = Inr () \<and>
   snd (save_games readonly_fs [game_doom, game_empty_wd]) =
     (case save_loop (snd (write_game_file readonly_fs game_doom)) [game_empty_wd] of
        (fs2, gs', lg) \<Rightarrow>
          (fs2, game_doom # gs', SaveFailed (JStr ''Doom II'') (OSError ''Permission denied'') # lg))"
proof -
  have a: "game_gid game_doom = Inr ''doom_ii''" by code_simp
  have b: "game_file_path (fs_nt readonly_fs) game_doom ''doom_ii'' =
      Inr (Path False ''games/doom_ii.json'')" by code_simp
  have c: "resolve readonly_fs (Path False ''games/doom_ii.json'') \<in> set (denied readonly_fs)"
    by code_simp
  have d: "fst (write_game_file readonly_fs game_doom) = Inl (OSError ''Permission denied'')"
    by code_simp
  have i: "map_of game_doom ''id'' = Some (JStr ''Doom II'')" by code_simp
  from save_failure_handling [of readonly_fs game_doom "''doom_ii''" "Path False ''games/doom_ii.json''"
      "[game_doom, game_empty_wd]" "OSError ''Permission denied''" "[game_empty_wd]"] a b c d
  show ?thesis by (simp add: i)
qed

text \<open>
  Where the file of a record cannot be written, \<^verbatim>\<open>_write_game_file\<close> raises, yet
  \<^verbatim>\<open>save_games\<close> returns normally with the failure only in the log and no file written.
\<close>

theorem save_games_swallows_counterexample:
  "fst (write_game_file readonly_fs game_doom) = Inl (OSError ''Permission denied'') \<and>
   save_games readonly_fs [game_doom] =
     (Inr (), readonly_fs, [game_doom],
      [SaveFailed (JStr ''Doom II'') (OSError ''Permission denied'')]) \<and>
   read_file readonly_fs (Path False ''games/doom_ii.json'') =
     Inl (OSError ''No such file or directory'')"
  by code_simp

section \<open>Properties of extraction and download\<close>

text \<open>
  C1. \<^verbatim>\<open>_safe_extract_zip\<close> compares the resolved paths as strings, so an entry
  \<^verbatim>\<open>../dest_evil/x.txt\<close> extracted into \<^verbatim>\<open>/tmp/dest\<close> passes the check: the call
  returns without raising and has written \<^verbatim>\<open>/tmp/dest_evil/x.txt\<close>, a file that did not
  exist before and is not inside the destination directory.
\<close>

theorem safe_extract_zip_sibling_escape:
  "fst (safe_extract_zip bytes_fs [sibling_entry] (Path False ''/tmp/dest'')) = Inr () \<and>
   read_file (snd (safe_extract_zip bytes_fs [sibling_entry] (Path False ''/tmp/dest'')))
     (Path False ''/tmp/dest_evil/x.txt'') = Inr ''pwned'' \<and>
   read_file bytes_fs (Path False ''/tmp/dest_evil/x.txt'') = Inl (OSError ''No such file or directory'') \<and>
   \<not> is_inside (resolve bytes_fs (Path False ''/tmp/dest''))
                 (resolve bytes_fs (Path False ''/tmp/dest_evil/x.txt''))"
  by code_simp

text \<open>
  C5 (amended). When the response has a status from 400 to 599, \<^verbatim>\<open>download_update\<close>
  raises \<^verbatim>\<open>HTTPError\<close> and nothing has changed: no directory made, no file opened or
  written, no callback called.
\<close>

theorem download_http_error_aborts:
  assumes "http_get env url = Inr r" and "400 \<le> status_code r" and "status_code r < 600"
  shows "\<exists>m. download_update env url dest extract_to progress_cb status_cb st =
               (Inl (HTTPError m), st)"
  using assms
  by (simp add: download_update_def download_stream_def raise_for_status_def)

theorem download_http_error_aborts_witness:
  "http_get (answer_with not_found_response) ''http://host/u.bin'' = Inr not_found_response \<and>
   400 \<le> status_code not_found_response \<and> status_code not_found_response < 600 \<and>
   (\<exists>m. download_update (answer_with not_found_response) ''http://host/u.bin'' ''/tmp/dl/u.bin''
          None True True dl_start = (Inl (HTTPError m), dl_start))"
proof -
  have a: "http_get (answer_with not_found_response) ''http://host/u.bin'' = Inr not_found_response"
    by (simp add: answer_with_def)
  have b: "400 \<le> status_code not_found_response" "status_code not_found_response < 600"
    by (simp_all add: not_found_response_def)
  from download_http_error_aborts [OF a b] a b show ?thesis by simp
qed

text \<open>
  A status outside 200 to 299 that \<^verbatim>\<open>raise_for_status\<close> lets through, here 300: the
  download returns normally and the body has replaced the file that was there.
\<close>

theorem download_non_2xx_counterexample:
  "fst (download_update (answer_with multiple_choices_response) ''http://host/u.bin''
          ''/tmp/dl/u.bin'' None True True dl_start) = Inr () \<and>
   read_file (dl_fs dl_start) (Path False ''/tmp/dl/u.bin'') = Inr ''old build'' \<and>
   read_file (dl_fs (snd (download_update (answer_with multiple_choices_response)
          ''http://host/u.bin'' ''/tmp/dl/u.bin'' None True True dl_start)))
     (Path False ''/tmp/dl/u.bin'') = Inr ''choose''"
  by code_simp

end
